theory Spec2Isabelle
  imports Complex_Main "HOL-Library.Sublist"
begin

section \<open>Strings and the string built-ins used by the retrieval core\<close>

text \<open>
  A text is a \<open>string\<close> whose characters are read as code units: \<open>charCode c\<close> is what
  \<^verbatim>\<open>charCodeAt\<close> returns. The character type has the code units 0 to 255, and the
  built-ins below (\<^verbatim>\<open>toLowerCase\<close>, the class \<^verbatim>\<open>\s\<close>, \<^verbatim>\<open>trim\<close>) are written out
  for that whole range. Numbers are real numbers; a value that the source computes from a
  missing array element is \<^verbatim>\<open>NaN\<close>, written \<open>None\<close> where it can occur.
  Counts (\<^verbatim>\<open>dims\<close>, \<^verbatim>\<open>limit\<close>) are natural numbers, or \<open>None\<close> where the source
  can hold \<^verbatim>\<open>undefined\<close> in their place.
\<close>

definition charCode :: "char \<Rightarrow> nat" where
  "charCode c = of_char c"

text \<open>The classes \<^verbatim>\<open>[a-z]\<close>, \<^verbatim>\<open>[A-Z]\<close>, \<^verbatim>\<open>[0-9]\<close>, \<^verbatim>\<open>[._-]\<close> and \<^verbatim>\<open>\s\<close>
  (tab, line feed, vertical tab, form feed, carriage return, space, no-break space).\<close>

definition isLowerAZ :: "char \<Rightarrow> bool" where
  "isLowerAZ c = (97 \<le> charCode c \<and> charCode c \<le> 122)"

definition isUpperAZ :: "char \<Rightarrow> bool" where
  "isUpperAZ c = (65 \<le> charCode c \<and> charCode c \<le> 90)"

definition isDigit :: "char \<Rightarrow> bool" where
  "isDigit c = (48 \<le> charCode c \<and> charCode c \<le> 57)"

definition isSeparator :: "char \<Rightarrow> bool" where
  "isSeparator c = (c = CHR ''.'' \<or> c = CHR ''_'' \<or> c = CHR ''-'')"

definition isSpace :: "char \<Rightarrow> bool" where
  "isSpace c = ((9 \<le> charCode c \<and> charCode c \<le> 13) \<or> charCode c = 32 \<or> charCode c = 160)"

text \<open>\<^verbatim>\<open>toLowerCase\<close>: the letters A to Z and the upper-case letters of the range 192 to 222
  (215 is the multiplication sign) move up by 32.\<close>

definition lowerChar :: "char \<Rightarrow> char" where
  "lowerChar c =
     (if isUpperAZ c \<or> (192 \<le> charCode c \<and> charCode c \<le> 222 \<and> charCode c \<noteq> 215)
      then char_of (charCode c + 32) else c)"

definition toLowerCase :: "string \<Rightarrow> string" where
  "toLowerCase s = map lowerChar s"

text \<open>\<^verbatim>\<open>trim\<close> removes the white space at both ends.\<close>

definition trim :: "string \<Rightarrow> string" where
  "trim s = rev (dropWhile isSpace (rev (dropWhile isSpace s)))"

text \<open>\<^verbatim>\<open>.replace(/([a-z])([A-Z])/g, '$1 $2')\<close>: the scan goes left to right and resumes
  after the upper-case letter of a match.\<close>

fun replaceCamel :: "string \<Rightarrow> string" where
  "replaceCamel (a # b # cs) =
     (if isLowerAZ a \<and> isUpperAZ b then a # CHR '' '' # b # replaceCamel cs
      else a # replaceCamel (b # cs))"
| "replaceCamel cs = cs"

text \<open>\<^verbatim>\<open>.replace(/[._-]+/g, ' ')\<close>: every maximal run of separators becomes one space.\<close>

function replaceSeparators :: "string \<Rightarrow> string" where
  "replaceSeparators [] = []"
| "replaceSeparators (c # cs) =
     (if isSeparator c then CHR '' '' # replaceSeparators (dropWhile isSeparator cs)
      else c # replaceSeparators cs)"
  by pat_completeness auto
termination
  by (relation "measure length") (auto simp: le_imp_less_Suc length_dropWhile_le)

text \<open>\<^verbatim>\<open>.replace(/[^a-z0-9\s]/g, ' ')\<close>.\<close>

definition replaceNonAlnum :: "string \<Rightarrow> string" where
  "replaceNonAlnum s = map (\<lambda>c. if isLowerAZ c \<or> isDigit c \<or> isSpace c then c else CHR '' '') s"

text \<open>\<^verbatim>\<open>.split(/\s+/)\<close>: the pieces between maximal runs of white space, empty pieces at
  the ends included; \<open>cur\<close> is the piece being read.\<close>

function splitSpaces :: "string \<Rightarrow> string \<Rightarrow> string list" where
  "splitSpaces cur [] = [cur]"
| "splitSpaces cur (c # cs) =
     (if isSpace c then cur # splitSpaces [] (dropWhile isSpace cs)
      else splitSpaces (cur @ [c]) cs)"
  by pat_completeness auto
termination
  by (relation "measure (\<lambda>(cur, s). length s)") (auto simp: le_imp_less_Suc length_dropWhile_le)

text \<open>\<^verbatim>\<open>.filter(Boolean)\<close> on strings keeps the non-empty ones.\<close>

definition filterBoolean :: "string list \<Rightarrow> string list" where
  "filterBoolean ts = filter (\<lambda>t. t \<noteq> []) ts"

section \<open>The pseudo embedding (module pseudo)\<close>

text \<open>
  \<^verbatim>\<open>pseudoEmbedVector(text, dims)\<close>. The hash of a token is kept below \<open>2 ^ 32\<close> by
  \<^verbatim>\<open>>>> 0\<close>. For \<open>dims = 0\<close> the source computes the index \<^verbatim>\<open>h % 0\<close>, which is not an
  index of the array, and the elements stay as they are.
\<close>

definition normalizeTokens :: "string \<Rightarrow> string list" where
  "normalizeTokens text =
     (let expanded = replaceSeparators (replaceCamel text);
          normText = replaceNonAlnum (toLowerCase expanded)
      in filterBoolean (splitSpaces [] normText))"

definition hashToken :: "string \<Rightarrow> nat" where
  "hashToken tok = fold (\<lambda>c h. (h * 31 + charCode c) mod 2 ^ 32) tok 0"

definition addToken :: "nat \<Rightarrow> string \<Rightarrow> real list \<Rightarrow> real list" where
  "addToken dims tok v =
     (let h = hashToken tok
      in if dims = 0 then v else v[h mod dims := v ! (h mod dims) + 1])"

definition sumSquares :: "real list \<Rightarrow> real" where
  "sumSquares v = fold (\<lambda>x s. s + x * x) v 0"

definition pseudoEmbedVector :: "string \<Rightarrow> nat \<Rightarrow> real list" where
  "pseudoEmbedVector text dims =
     (let v = replicate dims 0;
          tokens = normalizeTokens text;
          v = fold (addToken dims) tokens v;
          sumSq = sumSquares v;
          inv = (if sumSq \<noteq> 0 then 1 / sqrt sumSq else 1)
      in map (\<lambda>x. x * inv) v)"

text \<open>The Euclidean norm of a vector.\<close>

definition euclideanNorm :: "real list \<Rightarrow> real" where
  "euclideanNorm v = sqrt (sumSquares v)"

section \<open>The embedding provider (module provider)\<close>

text \<open>The provider module carries its own copy of the pseudo embedding
  (\<^verbatim>\<open>function pseudoEmbedVector\<close> of that module), translated here from that copy.\<close>

definition provider_pseudoEmbedVector :: "string \<Rightarrow> nat \<Rightarrow> real list" where
  "provider_pseudoEmbedVector text dims =
     (let v = replicate dims 0;
          expanded = replaceSeparators (replaceCamel text);
          normText = replaceNonAlnum (toLowerCase expanded);
          tokens = filterBoolean (splitSpaces [] normText);
          v = fold (\<lambda>tok v.
                 let h = fold (\<lambda>c h. (h * 31 + charCode c) mod 2 ^ 32) tok 0
                 in if dims = 0 then v else v[h mod dims := v ! (h mod dims) + 1]) tokens v;
          sumSq = fold (\<lambda>x s. s + x * x) v 0;
          inv = (if sumSq \<noteq> 0 then 1 / sqrt sumSq else 1)
      in map (\<lambda>x. x * inv) v)"

datatype Embedder = LocalPseudoEmbedder | AzureOpenAIStubEmbedder

fun embedder_dims :: "Embedder \<Rightarrow> nat" where
  "embedder_dims LocalPseudoEmbedder = 128"
| "embedder_dims AzureOpenAIStubEmbedder = 1536"

fun embed :: "Embedder \<Rightarrow> string list \<Rightarrow> real list list" where
  "embed LocalPseudoEmbedder texts =
     map (\<lambda>t. provider_pseudoEmbedVector t (embedder_dims LocalPseudoEmbedder)) texts"
| "embed AzureOpenAIStubEmbedder texts =
     map (\<lambda>t. provider_pseudoEmbedVector t (embedder_dims AzureOpenAIStubEmbedder)) texts"

section \<open>Data model (module types, and the content index of module indexer)\<close>

datatype jsValue = JString string | JNumber nat

text \<open>A \<^verbatim>\<open>meta\<close> object is the list of its properties that hold a value. A property that
  holds \<^verbatim>\<open>undefined\<close> reads like an absent one (every use in the source is a read such
  as \<^verbatim>\<open>r.meta.title\<close>), and \<^verbatim>\<open>JSON.stringify\<close> writes neither; it is left out. In the
  same way the optional \<^verbatim>\<open>resourceType\<close> is \<open>None\<close> both when it is absent and when it
  holds \<^verbatim>\<open>undefined\<close>.\<close>

type_synonym metaObject = "(string \<times> jsValue) list"

record EmbeddingRecord =
  record_id :: string
  kind :: string
  resourceType :: "string option"
  record_text :: string
  vector :: "real list"
  meta :: metaObject

record EmbeddingIndexFile =
  version :: int
  created :: string
  records :: "EmbeddingRecord list"
  file_dims :: nat
  sourceMtimeHash :: "string option"

record SimilarityResult =
  result_id :: string
  score :: "real option"
  result_meta :: metaObject
  result_text :: string

record RHCEventSummary =
  eventId :: "string option"
  title :: "string option"
  reasonType :: "string option"
  policyFile :: string

record PolicyIndexEntry =
  entry_file :: string
  events :: "RHCEventSummary list"

text \<open>Of the content index only \<^verbatim>\<open>policies\<close> is read by the retrieval core.\<close>

record RHCIndex =
  policies :: "PolicyIndexEntry list"

section \<open>The world outside the module: workspace, configuration, disk\<close>

datatype path = Root string | Join path string

datatype fsOp =
  Stat path | Readdir path | ReadFile path
  | ExistsSync path | MkdirSync path | WriteFileSync path | ReadFileSync path

text \<open>The loader does not validate what \<^verbatim>\<open>JSON.parse\<close> returns: it reads the properties
  \<^verbatim>\<open>version\<close>, \<^verbatim>\<open>records\<close> and \<^verbatim>\<open>dims\<close> of whatever value the text denotes. A JSON
  value other than \<^verbatim>\<open>null\<close> is given here by what these three reads return: \<open>None\<close>
  (\<^verbatim>\<open>undefined\<close>) for a property that is absent, as all three are for a number, a string,
  an array or the object \<^verbatim>\<open>{}\<close>; for \<^verbatim>\<open>version\<close> also when it holds anything but an
  integer (no such value is \<^verbatim>\<open>===\<close> the format version). The text
  \<^verbatim>\<open>{"version":2}\<close> reads the version 2 and neither records nor dims. A property
  \<^verbatim>\<open>records\<close> or \<^verbatim>\<open>dims\<close> that is present holds an array of records or a natural number;
  values of other kinds in these two places are outside the model.\<close>

record jsonReads =
  read_version :: "int option"
  read_records :: "EmbeddingRecord list option"
  read_dims :: "nat option"

text \<open>What the index file holds, if it exists: a file that cannot be read; a text that
  \<^verbatim>\<open>JSON.parse\<close> rejects; the JSON text of an index (\<^verbatim>\<open>JSON.parse\<close> gives back the
  object that \<^verbatim>\<open>JSON.stringify\<close> was given); the text \<^verbatim>\<open>null\<close>; the text of any other
  JSON value.\<close>

datatype fileContent =
  Unreadable | Malformed | IndexJson EmbeddingIndexFile | NullJson | OtherJson jsonReads

text \<open>The three reads on the object that \<^verbatim>\<open>JSON.parse\<close> gives for the text of an index.\<close>

definition readsOfIndex :: "EmbeddingIndexFile \<Rightarrow> jsonReads" where
  "readsOfIndex f =
     \<lparr> read_version = Some (version f), read_records = Some (records f),
       read_dims = Some (file_dims f) \<rparr>"

text \<open>\<^verbatim>\<open>JSON.parse(fs.readFileSync(file, 'utf8'))\<close> followed by the read of
  \<^verbatim>\<open>parsed.version\<close>: \<open>None\<close> when one of them raises, which it does for an unreadable
  file, for a text that is no JSON, and for \<^verbatim>\<open>null\<close>, which has no properties.\<close>

definition parsedReads :: "fileContent \<Rightarrow> jsonReads option" where
  "parsedReads content =
     (case content of
        Unreadable \<Rightarrow> None
      | Malformed \<Rightarrow> None
      | NullJson \<Rightarrow> None
      | IndexJson f \<Rightarrow> Some (readsOfIndex f)
      | OtherJson p \<Rightarrow> Some p)"

text \<open>The documentation directory: absent (or not a directory), not listable, or its files,
  each with its text when it can be read.\<close>

datatype docDirectory = NoDirectory | NotListable | Files "(string \<times> string option) list"

record env =
  workspaceRoot :: "string option"
  includeDocs :: bool
  embeddingProvider :: "string option"
  currentIndex :: "RHCIndex option"
  now :: string
  documentation :: docDirectory
  writable :: bool

text \<open>The module variables \<^verbatim>\<open>inMemory\<close>, \<^verbatim>\<open>dims\<close> and \<^verbatim>\<open>embedder\<close>, the storage
  directory and index file of the workspace, the file-system calls made so far, and the
  lines appended to the output channel. \<^verbatim>\<open>inMemory\<close> is \<open>None\<close> when it holds
  \<^verbatim>\<open>null\<close> or \<^verbatim>\<open>undefined\<close>, and \<^verbatim>\<open>dims\<close> is \<open>None\<close> when it holds \<^verbatim>\<open>undefined\<close>,
  which the loader can assign to both.\<close>

record state =
  inMemory :: "EmbeddingRecord list option"
  dims :: "nat option"
  embedder :: Embedder
  storageDirExists :: bool
  indexFile :: "fileContent option"
  fsLog :: "fsOp list"
  outputLines :: "string list"

datatype error = BaseIndexNotBuilt | EmbeddingIndexNotLoaded | FileSystemError

text \<open>The message of an error that the source raises itself; a file-system error carries
  the message of the system.\<close>

fun errorMessage :: "error \<Rightarrow> string option" where
  "errorMessage BaseIndexNotBuilt =
     Some ''Base index not built yet. Run RHC: Refresh Index first.''"
| "errorMessage EmbeddingIndexNotLoaded = Some ''Embedding index not loaded''"
| "errorMessage FileSystemError = None"

section \<open>Index build, load and search (module embeddings)\<close>

definition INDEX_VERSION :: int where
  "INDEX_VERSION = 2"

definition DEFAULT_DIMS :: nat where
  "DEFAULT_DIMS = 128"

text \<open>\<^verbatim>\<open>createEmbedder()\<close> reads the setting \<^verbatim>\<open>rhc.ai.embeddingProvider\<close>, whose default is
  \<^verbatim>\<open>'local-pseudo'\<close>.\<close>

definition createEmbedder :: "env \<Rightarrow> Embedder" where
  "createEmbedder env =
     (let provider = (case embeddingProvider env of None \<Rightarrow> ''local-pseudo'' | Some p \<Rightarrow> p)
      in if provider = ''azureOpenAI'' then AzureOpenAIStubEmbedder else LocalPseudoEmbedder)"

definition storageDir :: "env \<Rightarrow> path option" where
  "storageDir env =
     (case workspaceRoot env of
        None \<Rightarrow> None
      | Some rootPath \<Rightarrow> if rootPath = [] then None else Some (Join (Root rootPath) ''.rhc''))"

definition indexFilePath :: "env \<Rightarrow> path option" where
  "indexFilePath env =
     (case storageDir env of None \<Rightarrow> None | Some dir \<Rightarrow> Some (Join dir ''embeddings.json''))"

text \<open>\<^verbatim>\<open>pseudoEmbed(text, dimsLocal = DEFAULT_DIMS)\<close>: the default stands in for an
  argument that is \<^verbatim>\<open>undefined\<close>.\<close>

definition pseudoEmbed :: "string \<Rightarrow> nat option \<Rightarrow> real list" where
  "pseudoEmbed text dimsLocal =
     pseudoEmbedVector text (case dimsLocal of None \<Rightarrow> DEFAULT_DIMS | Some d \<Rightarrow> d)"

text \<open>\<^verbatim>\<open>cosine(a, b)\<close>. The loop runs over the indices of \<open>a\<close>. Where \<open>b\<close> is shorter it
  reads a missing element, the sums \<^verbatim>\<open>dot\<close> and \<^verbatim>\<open>lb\<close> become \<^verbatim>\<open>NaN\<close>, the
  denominator falls back to 1 and the quotient is \<^verbatim>\<open>NaN\<close>.\<close>

definition cosineSums :: "real list \<Rightarrow> real list \<Rightarrow> real \<times> real \<times> real" where
  "cosineSums a b =
     fold (\<lambda>(av, bv) (dot, la, lb). (dot + av * bv, la + av * av, lb + bv * bv)) (zip a b) (0, 0, 0)"

definition cosineDenominator :: "real list \<Rightarrow> real list \<Rightarrow> real" where
  "cosineDenominator a b =
     (let (dot, la, lb) = cosineSums a b; d = sqrt la * sqrt lb
      in if d \<noteq> 0 then d else 1)"

definition cosine :: "real list \<Rightarrow> real list \<Rightarrow> real option" where
  "cosine a b =
     (if length b < length a then None
      else let (dot, la, lb) = cosineSums a b in Some (dot / cosineDenominator a b))"

text \<open>\<^verbatim>\<open>/PolicyFile_(.+)\.json$/i.exec(s)\<close>: the match starts at the leftmost position where
  the prefix is found (letters in either case), the text ends in \<^verbatim>\<open>.json\<close>, and the
  characters in between, at least one, contain no line terminator; the group is what lies
  in between.\<close>

definition matchPolicyFileAt :: "string \<Rightarrow> string option" where
  "matchPolicyFileAt s =
     (let rest = drop 11 s; n = length rest
      in if toLowerCase (take 11 s) = ''policyfile_'' \<and> 6 \<le> n
            \<and> toLowerCase (drop (n - 5) rest) = ''.json''
            \<and> (\<forall>c \<in> set (take (n - 5) rest). charCode c \<noteq> 10 \<and> charCode c \<noteq> 13)
         then Some (take (n - 5) rest) else None)"

fun execPolicyFile :: "string \<Rightarrow> string option" where
  "execPolicyFile [] = None"
| "execPolicyFile (c # cs) =
     (case matchPolicyFileAt (c # cs) of Some rt \<Rightarrow> Some rt | None \<Rightarrow> execPolicyFile cs)"

text \<open>\<^verbatim>\<open>[...].filter(Boolean)\<close> on optional strings drops the undefined and the empty
  ones; \<^verbatim>\<open>.join(sep)\<close>.\<close>

definition filterBooleanOpt :: "string option list \<Rightarrow> string list" where
  "filterBooleanOpt xs =
     concat (map (\<lambda>x. case x of None \<Rightarrow> [] | Some t \<Rightarrow> if t \<noteq> [] then [t] else []) xs)"

fun joinStrings :: "string \<Rightarrow> string list \<Rightarrow> string" where
  "joinStrings sep [] = []"
| "joinStrings sep [x] = x"
| "joinStrings sep (x # y # ys) = x @ sep @ joinStrings sep (y # ys)"

text \<open>A natural number in a template literal is printed in decimal.\<close>

function showNat :: "nat \<Rightarrow> string" where
  "showNat n = (if n < 10 then [char_of (48 + n)] else showNat (n div 10) @ [char_of (48 + n mod 10)])"
  by pat_completeness auto
termination
  by (relation "measure id") auto

declare showNat.simps [simp del]

text \<open>\<^verbatim>\<open>chunkText(txt, size)\<close>. The loop of the source advances by the chunk size and does
  not end for a chunk size of 0 on a non-empty text; its one call passes 800, and the guard
  \<open>0 < sz\<close> keeps the model to such calls.\<close>

function chunkLoop :: "string \<Rightarrow> nat \<Rightarrow> nat \<Rightarrow> string list \<Rightarrow> string list" where
  "chunkLoop txt sz i out =
     (if i < length txt \<and> 0 < sz
      then chunkLoop txt sz (i + sz) (out @ [take sz (drop i txt)])
      else out)"
  by pat_completeness auto
termination
  by (relation "measure (\<lambda>(txt, sz, i, out). length txt - i)") auto

declare chunkLoop.simps [simp del]

definition chunkText :: "string \<Rightarrow> nat \<Rightarrow> string list" where
  "chunkText txt sz = chunkLoop txt sz 0 []"

definition optionalProperty :: "string \<Rightarrow> string option \<Rightarrow> metaObject" where
  "optionalProperty name v = (case v of None \<Rightarrow> [] | Some x \<Rightarrow> [(name, JString x)])"

text \<open>The body of the loop over \<^verbatim>\<open>idx.policies\<close>: the record of the policy, then one
  record for each of its events. The provider returns one vector for each text, in order.\<close>

definition policyRecords :: "Embedder \<Rightarrow> PolicyIndexEntry \<Rightarrow> EmbeddingRecord list" where
  "policyRecords e policy =
     (let inferredRT = execPolicyFile (entry_file policy);
          policyText = joinStrings '' '' (filterBooleanOpt [Some (entry_file policy), inferredRT]);
          policyVec = hd (embed e [policyText]);
          eventTexts = map (\<lambda>ev. joinStrings '' ''
                         (filterBooleanOpt [eventId ev, title ev, reasonType ev, inferredRT]))
                         (events policy);
          eventVectors = embed e eventTexts
      in \<lparr> record_id = ''policy:'' @ entry_file policy, kind = ''policy'',
           resourceType = inferredRT, record_text = policyText, vector = policyVec,
           meta = [(''file'', JString (entry_file policy))] \<rparr>
         # map (\<lambda>(ev, txt, vec).
             \<lparr> record_id = ''event:'' @ entry_file policy @ ''#''
                   @ (case eventId ev of None \<Rightarrow> ''unknown''
                      | Some i \<Rightarrow> if i \<noteq> [] then i else ''unknown''),
               kind = ''event'', resourceType = inferredRT, record_text = txt, vector = vec,
               meta = [(''file'', JString (entry_file policy))]
                   @ optionalProperty ''eventId'' (eventId ev)
                   @ optionalProperty ''title'' (title ev)
                   @ optionalProperty ''reasonType'' (reasonType ev) \<rparr>)
             (zip (events policy) (zip eventTexts eventVectors)))"

text \<open>The optional documentation chunks: the records, and the file-system calls made.
  A file that cannot be read is skipped.\<close>

definition docFileRecords :: "Embedder \<Rightarrow> string \<times> string option \<Rightarrow> EmbeddingRecord list" where
  "docFileRecords e fc =
     (case fc of
        (f, None) \<Rightarrow> []
      | (f, Some txt) \<Rightarrow>
          let chunks = chunkText txt 800; vectors = embed e chunks
          in map (\<lambda>(i, c, vec).
               \<lparr> record_id = ''doc:'' @ f @ ''#'' @ showNat i, kind = ''doc'',
                 resourceType = None, record_text = c, vector = vec,
                 meta = [(''file'', JString f), (''chunk'', JNumber i)] \<rparr>)
               (zip [0..<length chunks] (zip chunks vectors)))"

definition docRecords :: "env \<Rightarrow> Embedder \<Rightarrow> EmbeddingRecord list \<times> fsOp list" where
  "docRecords env e =
     (if includeDocs env then
        (case workspaceRoot env of
           None \<Rightarrow> ([], [])
         | Some rootPath \<Rightarrow>
             if rootPath = [] then ([], [])
             else let docDir = Join (Root rootPath) ''documentation''
                  in (case documentation env of
                        NoDirectory \<Rightarrow> ([], [Stat docDir])
                      | NotListable \<Rightarrow> ([], [Stat docDir, Readdir docDir])
                      | Files fs \<Rightarrow>
                          (concat (map (docFileRecords e) fs),
                           [Stat docDir, Readdir docDir]
                             @ map (\<lambda>(f, c). ReadFile (Join docDir f)) fs)))
      else ([], []))"

text \<open>The block \<^verbatim>\<open>// Persist\<close>: create the storage directory if it is missing, then
  write the payload. Both calls raise when the disk cannot be written.\<close>

definition persist :: "env \<Rightarrow> EmbeddingRecord list \<Rightarrow> nat \<Rightarrow> state \<Rightarrow> error option \<times> state" where
  "persist env recs effectiveDims s =
     (case storageDir env of
        None \<Rightarrow> (None, s)
      | Some dir \<Rightarrow>
          let s1 = s\<lparr> fsLog := fsLog s @ [ExistsSync dir] \<rparr>;
              s2 = (if storageDirExists s1 then s1 else s1\<lparr> fsLog := fsLog s1 @ [MkdirSync dir] \<rparr>)
          in if \<not> storageDirExists s1 \<and> \<not> writable env then (Some FileSystemError, s2)
             else
               let s3 = s2\<lparr> storageDirExists := True \<rparr>;
                   fileName = Join dir ''embeddings.json'';
                   payload = \<lparr> version = INDEX_VERSION, created = now env, records = recs,
                               file_dims = effectiveDims, sourceMtimeHash = None \<rparr>;
                   s4 = s3\<lparr> fsLog := fsLog s3 @ [WriteFileSync fileName] \<rparr>
               in if \<not> writable env then (Some FileSystemError, s4)
                  else (None, s4\<lparr> indexFile := Some (IndexJson payload) \<rparr>))"

text \<open>\<^verbatim>\<open>buildEmbeddingIndex(output?)\<close>. \<open>builtRecords\<close> is the array \<^verbatim>\<open>records\<close> once
  the policies and the documents have been gone through; \<open>output\<close> tells whether an output channel is passed. The result
  is the error raised, if any, and the state left behind. The content index is
  \<^verbatim>\<open>getIndex()\<close>; the build raises when there is none.\<close>

definition builtRecords :: "env \<Rightarrow> RHCIndex \<Rightarrow> EmbeddingRecord list" where
  "builtRecords env idx =
     concat (map (policyRecords (createEmbedder env)) (policies idx))
       @ fst (docRecords env (createEmbedder env))"

definition buildEmbeddingIndex :: "env \<Rightarrow> bool \<Rightarrow> state \<Rightarrow> error option \<times> state" where
  "buildEmbeddingIndex env output s =
     (case currentIndex env of
        None \<Rightarrow> (Some BaseIndexNotBuilt, s)
      | Some idx \<Rightarrow>
          let e = createEmbedder env;
              s1 = s\<lparr> embedder := e \<rparr>;
              effectiveDims = (if embedder_dims e \<noteq> 0 then embedder_dims e else DEFAULT_DIMS);
              recs = builtRecords env idx;
              s2 = s1\<lparr> fsLog := fsLog s1 @ snd (docRecords env e) \<rparr>
          in (case persist env recs effectiveDims s2 of
                (Some err, s3) \<Rightarrow> (Some err, s3)
              | (None, s3) \<Rightarrow>
                  let s4 = s3\<lparr> inMemory := Some recs, dims := Some effectiveDims \<rparr>
                  in (None,
                      if output
                      then s4\<lparr> outputLines := outputLines s4 @
                             [''[RHC AI] Embedding index built with '' @ showNat (length recs)
                                @ '' records (dims='' @ showNat effectiveDims @ '').''] \<rparr>
                      else s4)))"

text \<open>\<^verbatim>\<open>ensureEmbeddingsLoaded()\<close>. What raises inside \<^verbatim>\<open>try\<close> ends in
  \<^verbatim>\<open>return false\<close>. A parsed value whose \<^verbatim>\<open>version\<close> is the current one is adopted as it
  is, with no validation: \<^verbatim>\<open>inMemory\<close> and \<^verbatim>\<open>dims\<close> become what its properties
  \<^verbatim>\<open>records\<close> and \<^verbatim>\<open>dims\<close> read, be it \<^verbatim>\<open>undefined\<close>, and the call returns true.\<close>

definition ensureEmbeddingsLoaded :: "env \<Rightarrow> state \<Rightarrow> bool \<times> state" where
  "ensureEmbeddingsLoaded env s =
     (if inMemory s \<noteq> None then (True, s)
      else case indexFilePath env of
        None \<Rightarrow> (False, s)
      | Some fileName \<Rightarrow>
          let s1 = s\<lparr> fsLog := fsLog s @ [ExistsSync fileName] \<rparr>
          in (case indexFile s1 of
                None \<Rightarrow> (False, s1)
              | Some content \<Rightarrow>
                  let s2 = s1\<lparr> fsLog := fsLog s1 @ [ReadFileSync fileName] \<rparr>
                  in (case parsedReads content of
                        None \<Rightarrow> (False, s2)
                      | Some parsed \<Rightarrow>
                          if read_version parsed \<noteq> Some INDEX_VERSION then (False, s2)
                          else (True, s2\<lparr> inMemory := read_records parsed,
                                          dims := read_dims parsed \<rparr>))))"

text \<open>\<^verbatim>\<open>out.sort((a,b) => b.score - a.score)\<close>. The sort is stable, so with a consistent
  comparator the result is determined: it is the one that insertion from the right
  computes. A comparator value \<^verbatim>\<open>NaN\<close> counts as 0. With a \<^verbatim>\<open>NaN\<close> score the comparator
  is not consistent and the language leaves the order to the implementation; the order of
  the model is then one of the admissible ones.\<close>

definition compareFn :: "SimilarityResult \<Rightarrow> SimilarityResult \<Rightarrow> real option" where
  "compareFn a b = (case (score b, score a) of (Some x, Some y) \<Rightarrow> Some (x - y) | _ \<Rightarrow> None)"

definition sortCompare :: "SimilarityResult \<Rightarrow> SimilarityResult \<Rightarrow> real" where
  "sortCompare a b = (case compareFn a b of None \<Rightarrow> 0 | Some v \<Rightarrow> v)"

fun insertSorted :: "SimilarityResult \<Rightarrow> SimilarityResult list \<Rightarrow> SimilarityResult list" where
  "insertSorted x [] = [x]"
| "insertSorted x (y # ys) =
     (if sortCompare x y \<le> 0 then x # y # ys else y # insertSorted x ys)"

definition jsSort :: "SimilarityResult list \<Rightarrow> SimilarityResult list" where
  "jsSort xs = foldr insertSorted xs []"

text \<open>\<^verbatim>\<open>similaritySearch(query, limit = 10, filterKind?, resourceTypeHint?)\<close>. A record is
  skipped (\<^verbatim>\<open>continue\<close>) by the kind filter or by the resource-type hint.\<close>

definition skippedByKind :: "string list option \<Rightarrow> EmbeddingRecord \<Rightarrow> bool" where
  "skippedByKind filterKind r =
     (case filterKind of None \<Rightarrow> False | Some ks \<Rightarrow> kind r \<notin> set ks)"

definition skippedByHint :: "string option \<Rightarrow> EmbeddingRecord \<Rightarrow> bool" where
  "skippedByHint resourceTypeHint r =
     (case resourceTypeHint of
        None \<Rightarrow> False
      | Some h \<Rightarrow> h \<noteq> [] \<and>
          (case resourceType r of
             None \<Rightarrow> False
           | Some rt \<Rightarrow> rt \<noteq> [] \<and> toLowerCase rt \<noteq> toLowerCase h))"

definition scored :: "real list \<Rightarrow> EmbeddingRecord \<Rightarrow> SimilarityResult" where
  "scored qv r =
     \<lparr> result_id = record_id r, score = cosine qv (vector r),
       result_meta = meta r, result_text = record_text r \<rparr>"

definition similaritySearch ::
  "state \<Rightarrow> string \<Rightarrow> nat option \<Rightarrow> string list option \<Rightarrow> string option
     \<Rightarrow> error + SimilarityResult list" where
  "similaritySearch s query limit filterKind resourceTypeHint =
     (case inMemory s of
        None \<Rightarrow> Inl EmbeddingIndexNotLoaded
      | Some rs \<Rightarrow>
          let qv = pseudoEmbed query (dims s);
              out = map (scored qv)
                      (filter (\<lambda>r. \<not> skippedByKind filterKind r
                                  \<and> \<not> skippedByHint resourceTypeHint r) rs)
          in Inr (take (case limit of None \<Rightarrow> 10 | Some k \<Rightarrow> k) (jsSort out)))"

section \<open>Event discovery (module rag)\<close>

record RagAnswer =
  results :: "SimilarityResult list"
  markdown :: string

definition jsTruthy :: "jsValue option \<Rightarrow> bool" where
  "jsTruthy v =
     (case v of None \<Rightarrow> False | Some (JString t) \<Rightarrow> t \<noteq> [] | Some (JNumber n) \<Rightarrow> n \<noteq> 0)"

definition jsToString :: "jsValue option \<Rightarrow> string" where
  "jsToString v =
     (case v of None \<Rightarrow> ''undefined'' | Some (JString t) \<Rightarrow> t | Some (JNumber n) \<Rightarrow> showNat n)"

text \<open>The dash of the title literal lies outside the code units of the model; it is
  written as the three bytes of its UTF-8 form.\<close>

definition titleDash :: string where
  "titleDash = [char_of (226 :: nat), char_of (128 :: nat), char_of (148 :: nat)]"

definition resultLine :: "SimilarityResult \<Rightarrow> string" where
  "resultLine r =
     (let m = map_of (result_meta r);
          evId = (if jsTruthy (m ''eventId'') then jsToString (m ''eventId'') else ''unknown'');
          titlePart = (if jsTruthy (m ''title'')
                       then '' '' @ titleDash @ '' '' @ jsToString (m ''title'') else []);
          reason = (if jsTruthy (m ''reasonType'')
                    then '' (ReasonType: '' @ jsToString (m ''reasonType'') @ '')'' else []);
          filePart = (if jsTruthy (m ''file'')
                      then '' in `'' @ jsToString (m ''file'') @ ''`'' else [])
      in ''- **'' @ evId @ ''**'' @ titlePart @ reason @ filePart)"

definition fallbackLine :: "nat \<Rightarrow> string" where
  "fallbackLine n =
     ''No strong token matches; showing top '' @ showNat n @ '' similar event(s) (fallback).''"

definition relatedLine :: "string \<Rightarrow> nat \<Rightarrow> string" where
  "relatedLine normPhrase n =
     ''Events potentially related to **'' @ normPhrase @ ''** (top '' @ showNat n @ ''):''"

text \<open>The test of the post-filter: some token of the phrase occurs in the lower-cased text,
  or the score is above 0.20 (a comparison with \<^verbatim>\<open>NaN\<close> is false).\<close>

definition keepsResult :: "string list \<Rightarrow> SimilarityResult \<Rightarrow> bool" where
  "keepsResult normLowerTokens r =
     ((\<exists>t \<in> set normLowerTokens. sublist t (toLowerCase (result_text r)))
      \<or> (case score r of None \<Rightarrow> False | Some x \<Rightarrow> x > 0.20))"

text \<open>\<^verbatim>\<open>eventsForResourceType(resourceTypePhrase, limit = 15)\<close>; \<open>normPhrase\<close> is the
  variable \<^verbatim>\<open>norm\<close> of the source, and \<open>filtered0\<close> is \<^verbatim>\<open>filtered\<close> before the fallback
  replaces it. An error of the search passes through to the caller.\<close>

definition eventsForResourceType :: "state \<Rightarrow> string \<Rightarrow> nat option \<Rightarrow> error + RagAnswer" where
  "eventsForResourceType s resourceTypePhrase limit =
     (let normPhrase = trim resourceTypePhrase;
          query = normPhrase @ '' events''
      in case similaritySearch s query (Some (case limit of None \<Rightarrow> 15 | Some k \<Rightarrow> k))
                (Some [''event'']) None of
           Inl err \<Rightarrow> Inl err
         | Inr sims \<Rightarrow>
             let normLowerTokens = filterBoolean (splitSpaces [] (toLowerCase normPhrase));
                 filtered0 = filter (keepsResult normLowerTokens) sims;
                 filtered = (if length filtered0 = 0
                             then take (min 5 (length sims)) sims else filtered0);
                 lines = [if length filtered0 = 0 then fallbackLine (length filtered)
                          else relatedLine normPhrase (length filtered)]
                         @ map resultLine filtered
                         @ (if length filtered = 0
                            then [''No matching events found. Try refining the resource type phrasing.'']
                            else [])
             in Inr \<lparr> results = filtered, markdown = joinStrings [char_of (10 :: nat)] lines \<rparr>)"

section \<open>States the module can reach\<close>

text \<open>The invariant of the data model: every vector of an index has the dimensionality of
  the index. A process starts with no index in memory; the index file it finds, if it is of
  the current format version and holds records, is assumed to satisfy the invariant: it
  holds \<^verbatim>\<open>dims\<close> too, and its vectors have that length.\<close>

definition vectorsHaveDims :: "nat \<Rightarrow> EmbeddingRecord list \<Rightarrow> bool" where
  "vectorsHaveDims d rs = (\<forall>r \<in> set rs. length (vector r) = d)"

definition diskConsistent :: "state \<Rightarrow> bool" where
  "diskConsistent s =
     (case indexFile s of
        Some (IndexJson f) \<Rightarrow>
          version f = INDEX_VERSION \<longrightarrow> vectorsHaveDims (file_dims f) (records f)
      | Some (OtherJson p) \<Rightarrow>
          read_version p = Some INDEX_VERSION \<longrightarrow>
            (case read_records p of
               None \<Rightarrow> True
             | Some rs \<Rightarrow>
                 (case read_dims p of None \<Rightarrow> False | Some d \<Rightarrow> vectorsHaveDims d rs))
      | _ \<Rightarrow> True)"

definition initialState :: "env \<Rightarrow> bool \<Rightarrow> fileContent option \<Rightarrow> state" where
  "initialState env dirExists content =
     \<lparr> inMemory = None, dims = Some DEFAULT_DIMS, embedder = createEmbedder env,
       storageDirExists = dirExists, indexFile = content, fsLog = [], outputLines = [] \<rparr>"

inductive reachable :: "state \<Rightarrow> bool" where
  start: "diskConsistent (initialState env dirExists content)
            \<Longrightarrow> reachable (initialState env dirExists content)"
| build: "reachable s \<Longrightarrow> reachable (snd (buildEmbeddingIndex env output s))"
| load: "reachable s \<Longrightarrow> reachable (snd (ensureEmbeddingsLoaded env s))"

text \<open>The invariant kept by build and load: with an index in memory, \<^verbatim>\<open>dims\<close> holds a
  number and the vectors of the index have that dimensionality; and the index file is
  consistent.\<close>

definition indexInvariant :: "state \<Rightarrow> bool" where
  "indexInvariant s =
     ((case inMemory s of
         None \<Rightarrow> True
       | Some rs \<Rightarrow> (case dims s of None \<Rightarrow> False | Some d \<Rightarrow> vectorsHaveDims d rs))
      \<and> diskConsistent s)"

section \<open>Notions used in the statements\<close>

text \<open>The dimensionality at which the search embeds the query: \<^verbatim>\<open>dims\<close>, or the default
  of \<^verbatim>\<open>pseudoEmbed\<close> when \<^verbatim>\<open>dims\<close> is \<^verbatim>\<open>undefined\<close>.\<close>

definition searchDims :: "state \<Rightarrow> nat" where
  "searchDims s = (case dims s of None \<Rightarrow> DEFAULT_DIMS | Some d \<Rightarrow> d)"

text \<open>The dot product of two vectors.\<close>

definition dotProduct :: "real list \<Rightarrow> real list \<Rightarrow> real" where
  "dotProduct a b = sum_list (map (\<lambda>(x, y). x * y) (zip a b))"

text \<open>A ranking is sorted when each score is at least the scores after it; a \<^verbatim>\<open>NaN\<close>
  score is in no order with any other.\<close>

definition scoreAtLeast :: "SimilarityResult \<Rightarrow> SimilarityResult \<Rightarrow> bool" where
  "scoreAtLeast a b = (case (score a, score b) of (Some x, Some y) \<Rightarrow> y \<le> x | _ \<Rightarrow> False)"

definition sortedByScore :: "SimilarityResult list \<Rightarrow> bool" where
  "sortedByScore out = sorted_wrt scoreAtLeast out"

text \<open>What a successful build leaves on disk and on the output channel, and the state in
  which a new process finds the disk that an earlier one left.\<close>

definition builtPayload :: "env \<Rightarrow> RHCIndex \<Rightarrow> EmbeddingIndexFile" where
  "builtPayload env idx =
     \<lparr> version = INDEX_VERSION, created = now env, records = builtRecords env idx,
       file_dims = embedder_dims (createEmbedder env), sourceMtimeHash = None \<rparr>"

definition builtLine :: "env \<Rightarrow> RHCIndex \<Rightarrow> string" where
  "builtLine env idx =
     ''[RHC AI] Embedding index built with '' @ showNat (length (builtRecords env idx))
       @ '' records (dims='' @ showNat (embedder_dims (createEmbedder env)) @ '').''"

definition freshProcess :: "env \<Rightarrow> state \<Rightarrow> state" where
  "freshProcess env s = initialState env (storageDirExists s) (indexFile s)"

text \<open>The non-empty pieces of a text between white space, read in one pass; \<open>cur\<close> is
  the piece being read. It is shown below to be \<^verbatim>\<open>split(/\s+/).filter(Boolean)\<close>.\<close>

fun tokensOf :: "string \<Rightarrow> string \<Rightarrow> string list" where
  "tokensOf cur [] = (if cur = [] then [] else [cur])"
| "tokensOf cur (c # cs) =
     (if isSpace c then (if cur = [] then tokensOf [] cs else cur # tokensOf [] cs)
      else tokensOf (cur @ [c]) cs)"

text \<open>The words of the post-filter: the white-space delimited tokens of the phrase,
  containment without regard to case, the test on a result, and the mark of a fallback
  answer (its first line).\<close>

definition phraseTokens :: "string \<Rightarrow> string list" where
  "phraseTokens phrase = filterBoolean (splitSpaces [] phrase)"

definition containsIgnoringCase :: "string \<Rightarrow> string \<Rightarrow> bool" where
  "containsIgnoringCase t tok = sublist (toLowerCase tok) (toLowerCase t)"

definition passesPostFilter :: "string \<Rightarrow> SimilarityResult \<Rightarrow> bool" where
  "passesPostFilter phrase r =
     ((\<exists>tok \<in> set (phraseTokens phrase). containsIgnoringCase (result_text r) tok)
      \<or> (case score r of None \<Rightarrow> False | Some x \<Rightarrow> x > 0.20))"

definition flaggedFallback :: "RagAnswer \<Rightarrow> bool" where
  "flaggedFallback ans = prefix (fallbackLine (length (results ans))) (markdown ans)"

section \<open>Example inputs\<close>

text \<open>The content index of the scenario with one policy file and one event; a workspace
  with default settings, and the same workspace with the other provider configured.\<close>

definition exampleIndex :: RHCIndex where
  "exampleIndex =
     \<lparr> policies = [\<lparr> entry_file = ''PolicyFile_Foo.json'',
          events = [\<lparr> eventId = Some ''Bar'', title = Some ''Bar Title'',
                      reasonType = Some ''Unplanned'', policyFile = ''PolicyFile_Foo.json'' \<rparr>] \<rparr>] \<rparr>"

definition exampleEnv :: env where
  "exampleEnv =
     \<lparr> workspaceRoot = Some ''/ws'', includeDocs = False, embeddingProvider = None,
       currentIndex = Some exampleIndex, now = ''2025-01-01T00:00:00.000Z'',
       documentation = NoDirectory, writable = True \<rparr>"

definition azureEnv :: env where
  "azureEnv = exampleEnv\<lparr> embeddingProvider := Some ''azureOpenAI'' \<rparr>"

text \<open>A small index of dimensionality 2 and its ranking of the event records for the query
  \<^verbatim>\<open>a\<close>; an index file of an older format version and one of the current version; the
  state after loading the latter, and the state after a build in the example workspace.\<close>

definition smallRecords :: "EmbeddingRecord list" where
  "smallRecords =
     [\<lparr> record_id = ''policy:p'', kind = ''policy'', resourceType = Some ''Foo'',
        record_text = ''p'', vector = [0, 1], meta = [(''file'', JString ''p'')] \<rparr>,
      \<lparr> record_id = ''event:p#b'', kind = ''event'', resourceType = Some ''Foo'',
        record_text = ''b Foo'', vector = [1, 0],
        meta = [(''file'', JString ''p''), (''eventId'', JString ''b'')] \<rparr>,
      \<lparr> record_id = ''event:p#a'', kind = ''event'', resourceType = Some ''Foo'',
        record_text = ''a Foo'', vector = [0, 1],
        meta = [(''file'', JString ''p''), (''eventId'', JString ''a'')] \<rparr>]"

definition smallState :: state where
  "smallState = (initialState exampleEnv False None)\<lparr> inMemory := Some smallRecords, dims := Some 2 \<rparr>"

definition smallRanking :: "SimilarityResult list" where
  "smallRanking =
     [\<lparr> result_id = ''event:p#a'', score = Some 1,
        result_meta = [(''file'', JString ''p''), (''eventId'', JString ''a'')],
        result_text = ''a Foo'' \<rparr>,
      \<lparr> result_id = ''event:p#b'', score = Some 0,
        result_meta = [(''file'', JString ''p''), (''eventId'', JString ''b'')],
        result_text = ''b Foo'' \<rparr>]"

definition staleFile :: EmbeddingIndexFile where
  "staleFile = \<lparr> version = 1, created = ''2024-01-01T00:00:00.000Z'', records = smallRecords,
                 file_dims = 2, sourceMtimeHash = None \<rparr>"

definition currentFile :: EmbeddingIndexFile where
  "currentFile = \<lparr> version = 2, created = ''2024-01-01T00:00:00.000Z'', records = smallRecords,
                 file_dims = 2, sourceMtimeHash = None \<rparr>"

text \<open>What the loader reads from the text \<^verbatim>\<open>{"version":2}\<close>, and from the text
  \<^verbatim>\<open>{}\<close>.\<close>

definition versionOnly :: jsonReads where
  "versionOnly = \<lparr> read_version = Some 2, read_records = None, read_dims = None \<rparr>"

definition emptyObject :: jsonReads where
  "emptyObject = \<lparr> read_version = None, read_records = None, read_dims = None \<rparr>"

definition loadedState :: state where
  "loadedState =
     snd (ensureEmbeddingsLoaded exampleEnv
            (initialState exampleEnv True (Some (IndexJson currentFile))))"

definition builtState :: state where
  "builtState = snd (buildEmbeddingIndex exampleEnv False (initialState exampleEnv False None))"

text \<open>Two indexes of dimensionality 1: the ranking of the first for the phrase \<^verbatim>\<open>b\<close>, what
  the post-filter keeps of it, and the ranking of the second for the phrase \<^verbatim>\<open>zz\<close>.\<close>

definition tinyRecords :: "EmbeddingRecord list" where
  "tinyRecords =
     [\<lparr> record_id = ''event:p#b'', kind = ''event'', resourceType = Some ''Foo'',
        record_text = ''B Foo'', vector = [0], meta = [(''eventId'', JString ''b'')] \<rparr>,
      \<lparr> record_id = ''event:p#d'', kind = ''event'', resourceType = Some ''Foo'',
        record_text = ''d Foo'', vector = [0], meta = [(''eventId'', JString ''d'')] \<rparr>,
      \<lparr> record_id = ''event:p#c'', kind = ''event'', resourceType = Some ''Foo'',
        record_text = ''c Foo'', vector = [1], meta = [(''eventId'', JString ''c'')] \<rparr>]"

definition tinyState :: state where
  "tinyState = (initialState exampleEnv False None)\<lparr> inMemory := Some tinyRecords, dims := Some 1 \<rparr>"

definition zeroState :: state where
  "zeroState =
     (initialState exampleEnv False None)\<lparr> inMemory := Some (butlast tinyRecords), dims := Some 1 \<rparr>"

definition tinySims :: "SimilarityResult list" where
  "tinySims =
     [\<lparr> result_id = ''event:p#c'', score = Some 1, result_meta = [(''eventId'', JString ''c'')],
        result_text = ''c Foo'' \<rparr>,
      \<lparr> result_id = ''event:p#b'', score = Some 0, result_meta = [(''eventId'', JString ''b'')],
        result_text = ''B Foo'' \<rparr>,
      \<lparr> result_id = ''event:p#d'', score = Some 0, result_meta = [(''eventId'', JString ''d'')],
        result_text = ''d Foo'' \<rparr>]"

definition tinyKept :: "SimilarityResult list" where
  "tinyKept =
     [\<lparr> result_id = ''event:p#c'', score = Some 1, result_meta = [(''eventId'', JString ''c'')],
        result_text = ''c Foo'' \<rparr>,
      \<lparr> result_id = ''event:p#b'', score = Some 0, result_meta = [(''eventId'', JString ''b'')],
        result_text = ''B Foo'' \<rparr>]"

definition zeroSims :: "SimilarityResult list" where
  "zeroSims =
     [\<lparr> result_id = ''event:p#b'', score = Some 0, result_meta = [(''eventId'', JString ''b'')],
        result_text = ''B Foo'' \<rparr>,
      \<lparr> result_id = ''event:p#d'', score = Some 0, result_meta = [(''eventId'', JString ''d'')],
        result_text = ''d Foo'' \<rparr>]"

section \<open>The pseudo embedding: length and norm\<close>

lemma length_fold_addToken: "length (fold (addToken d) ts v) = length v"
  by (induction ts arbitrary: v) (simp_all add: addToken_def Let_def)

lemma fold_squares_sum_list:
  "fold (\<lambda>x s. s + x * x) v a = a + sum_list (map (\<lambda>x. x * x) v)"
  by (induction v arbitrary: a) (simp_all add: add.assoc)

lemma sumSquares_sum_list: "sumSquares v = sum_list (map (\<lambda>x. x * x) v)"
  by (simp add: sumSquares_def fold_squares_sum_list)

lemma sumSquares_nonneg: "0 \<le> sumSquares v"
  by (auto simp: sumSquares_sum_list intro!: sum_list_nonneg)

lemma sumSquares_scale: "sumSquares (map (\<lambda>x. x * c) v) = c * c * sumSquares v"
  by (induction v) (simp_all add: sumSquares_sum_list algebra_simps)

lemma sumSquares_replicate_zero: "sumSquares (replicate d 0) = 0"
  by (induction d) (simp_all add: sumSquares_sum_list)

lemma sumSquares_update_ge:
  "i < length v \<Longrightarrow> 0 \<le> v ! i \<Longrightarrow> sumSquares v + 1 \<le> sumSquares (v[i := v ! i + 1])"
proof (induction v arbitrary: i)
  case Nil
  then show ?case by simp
next
  case (Cons a v)
  show ?case
  proof (cases i)
    case 0
    with Cons.prems show ?thesis by (simp add: sumSquares_sum_list algebra_simps)
  next
    case (Suc j)
    with Cons show ?thesis by (simp add: sumSquares_sum_list)
  qed
qed

lemma nonneg_addToken:
  assumes "\<forall>x\<in>set v. 0 \<le> x"
  shows "\<forall>x\<in>set (addToken d tok v). 0 \<le> x"
proof (cases "d = 0 \<or> \<not> hashToken tok mod d < length v")
  case True
  with assms show ?thesis by (auto simp: addToken_def Let_def list_update_beyond)
next
  case False
  then have i: "hashToken tok mod d < length v" and d: "d \<noteq> 0" by auto
  from i assms have "0 \<le> v ! (hashToken tok mod d)" by simp
  with assms i d show ?thesis
    by (auto simp: addToken_def Let_def dest!: set_update_subset_insert[THEN subsetD])
qed

text \<open>Every token adds at least 1 to the sum of squares of the histogram.\<close>

lemma fold_addToken_grows:
  "0 < d \<Longrightarrow> length v = d \<Longrightarrow> \<forall>x\<in>set v. 0 \<le> x \<Longrightarrow>
   sumSquares v + real (length ts) \<le> sumSquares (fold (addToken d) ts v)"
proof (induction ts arbitrary: v)
  case Nil
  then show ?case by simp
next
  case (Cons t ts)
  let ?w = "addToken d t v"
  have lw: "length ?w = d" using Cons.prems by (simp add: addToken_def Let_def)
  have nw: "\<forall>x\<in>set ?w. 0 \<le> x" using Cons.prems nonneg_addToken by blast
  have "sumSquares v + 1 \<le> sumSquares ?w"
    using Cons.prems by (simp add: addToken_def Let_def sumSquares_update_ge)
  moreover have "sumSquares ?w + real (length ts) \<le> sumSquares (fold (addToken d) ts ?w)"
    using Cons.IH[OF Cons.prems(1) lw nw] .
  ultimately show ?case by simp
qed

lemma length_pseudoEmbedVector: "length (pseudoEmbedVector t d) = d"
  by (simp add: pseudoEmbedVector_def Let_def length_fold_addToken)

lemma normalizeTokens_fooBar: "normalizeTokens ''fooBar'' = [''foo'', ''bar'']"
  by code_simp

lemma normalizeTokens_dashes: "normalizeTokens ''--'' = []"
  by code_simp

text \<open>
  Claim C1. For every text \<open>t\<close> and every dimensionality \<open>d > 0\<close>, the pseudo embedding
  has length exactly \<open>d\<close>; its Euclidean norm is 1 when \<open>t\<close> has at least one token, and
  it is the all-zero vector of length \<open>d\<close> when \<open>t\<close> normalizes to zero tokens.
  (Numbers are real numbers here, so the norm is exactly 1.)
\<close>

theorem pseudoEmbedVector_length_norm:
  assumes "0 < d"
  shows "length (pseudoEmbedVector t d) = d
       \<and> (normalizeTokens t \<noteq> [] \<longrightarrow> euclideanNorm (pseudoEmbedVector t d) = 1)
       \<and> (normalizeTokens t = [] \<longrightarrow> pseudoEmbedVector t d = replicate d 0)"
proof -
  let ?v = "fold (addToken d) (normalizeTokens t) (replicate d 0)"
  have zero: "normalizeTokens t = [] \<Longrightarrow> pseudoEmbedVector t d = replicate d 0"
    by (simp add: pseudoEmbedVector_def Let_def sumSquares_replicate_zero)
  have unit: "euclideanNorm (pseudoEmbedVector t d) = 1" if ne: "normalizeTokens t \<noteq> []"
  proof -
    have "sumSquares (replicate d 0) + real (length (normalizeTokens t)) \<le> sumSquares ?v"
      using assms by (intro fold_addToken_grows) simp_all
    moreover have "1 \<le> real (length (normalizeTokens t))"
      using ne by (cases "normalizeTokens t") simp_all
    ultimately have pos: "0 < sumSquares ?v"
      unfolding sumSquares_replicate_zero by linarith
    have "pseudoEmbedVector t d = map (\<lambda>x. x * (1 / sqrt (sumSquares ?v))) ?v"
      using pos by (simp add: pseudoEmbedVector_def Let_def)
    then have "sumSquares (pseudoEmbedVector t d) =
        (1 / sqrt (sumSquares ?v)) * (1 / sqrt (sumSquares ?v)) * sumSquares ?v"
      by (simp only: sumSquares_scale)
    also have "\<dots> = 1" using pos by simp
    finally show ?thesis by (simp add: euclideanNorm_def)
  qed
  from zero unit show ?thesis by (simp add: length_pseudoEmbedVector)
qed

theorem pseudoEmbedVector_length_norm_witness:
  "0 < (4::nat) \<and> normalizeTokens ''fooBar'' \<noteq> []
   \<and> length (pseudoEmbedVector ''fooBar'' 4) = 4
   \<and> euclideanNorm (pseudoEmbedVector ''fooBar'' 4) = 1
   \<and> normalizeTokens ''--'' = []
   \<and> pseudoEmbedVector ''--'' 4 = [0, 0, 0, 0]"
proof -
  have pos: "0 < (4::nat)" by simp
  have r4: "replicate 4 (0::real) = [0, 0, 0, 0]" by (simp add: numeral_eq_Suc)
  show ?thesis
    using pseudoEmbedVector_length_norm [OF pos, of "''fooBar''"]
      pseudoEmbedVector_length_norm [OF pos, of "''--''"]
    by (simp add: normalizeTokens_fooBar normalizeTokens_dashes r4)
qed

section \<open>The copy of the pseudo embedding in the provider\<close>

lemma provider_pseudoEmbedVector_eq: "provider_pseudoEmbedVector t d = pseudoEmbedVector t d"
proof -
  have "addToken d = (\<lambda>tok v. let h = fold (\<lambda>c h. (h * 31 + charCode c) mod 2 ^ 32) tok 0
                 in if d = 0 then v else v[h mod d := v ! (h mod d) + 1])"
    by (rule ext)+ (simp add: addToken_def hashToken_def)
  then show ?thesis
    by (simp add: provider_pseudoEmbedVector_def pseudoEmbedVector_def normalizeTokens_def
        sumSquares_def Let_def)
qed

lemma embed_eq: "embed e ts = map (\<lambda>t. pseudoEmbed t (Some (embedder_dims e))) ts"
  by (cases e) (simp_all add: provider_pseudoEmbedVector_eq pseudoEmbed_def)

text \<open>
  Claim C10. The copy of \<^verbatim>\<open>pseudoEmbedVector\<close> inside the provider module computes, for
  every text and every dimensionality, the same vector as the one of the pseudo module.
  So the vectors that either provider variant produces at build time and the query vector
  of the search (\<^verbatim>\<open>pseudoEmbed\<close>) are values of one function, at the dimensionality of
  the provider.
\<close>

theorem provider_copy_agrees:
  "provider_pseudoEmbedVector t d = pseudoEmbedVector t d
   \<and> embed e ts = map (\<lambda>t. pseudoEmbed t (Some (embedder_dims e))) ts
   \<and> pseudoEmbed q (Some (embedder_dims e)) = pseudoEmbedVector q (embedder_dims e)"
  by (simp add: provider_pseudoEmbedVector_eq embed_eq pseudoEmbed_def)

theorem provider_copy_agrees_witness:
  "provider_pseudoEmbedVector ''fooBar'' 4 = pseudoEmbedVector ''fooBar'' 4
   \<and> embed AzureOpenAIStubEmbedder [''fooBar''] = [pseudoEmbed ''fooBar'' (Some 1536)]
   \<and> pseudoEmbed ''foo'' (Some 1536) = pseudoEmbedVector ''foo'' 1536"
  using provider_copy_agrees [of "''fooBar''" 4 AzureOpenAIStubEmbedder "[''fooBar'']" "''foo''"]
  by simp

section \<open>Cosine scoring\<close>

lemma cosineSums_fold:
  "fold (\<lambda>(av, bv) (dot, la, lb). (dot + av * bv, la + av * av, lb + bv * bv)) ps (d, p, q)
   = (d + sum_list (map (\<lambda>(x, y). x * y) ps),
      p + sum_list (map (\<lambda>x. x * x) (map fst ps)),
      q + sum_list (map (\<lambda>x. x * x) (map snd ps)))"
  by (induction ps arbitrary: d p q) (auto simp: add.assoc)

lemma cosineSums_eq:
  "length a = length b \<Longrightarrow> cosineSums a b = (dotProduct a b, sumSquares a, sumSquares b)"
  by (simp add: cosineSums_def cosineSums_fold dotProduct_def sumSquares_sum_list)

lemma sumSquares_zero_iff: "sumSquares v = 0 \<longleftrightarrow> (\<forall>x\<in>set v. x = 0)"
proof (induction v)
  case Nil
  then show ?case by (simp add: sumSquares_sum_list)
next
  case (Cons a v)
  have "a * a + sumSquares v = 0 \<longleftrightarrow> a * a = 0 \<and> sumSquares v = 0"
    by (rule add_nonneg_eq_0_iff) (simp_all add: sumSquares_nonneg)
  then show ?case using Cons by (simp add: sumSquares_sum_list)
qed

lemma dotProduct_zero_left: "\<forall>x\<in>set a. x = 0 \<Longrightarrow> dotProduct a b = 0"
proof (induction a arbitrary: b)
  case Nil
  then show ?case by (simp add: dotProduct_def)
next
  case (Cons x a)
  then show ?case by (cases b) (simp_all add: dotProduct_def)
qed

lemma dotProduct_zero_right: "\<forall>y\<in>set b. y = 0 \<Longrightarrow> dotProduct a b = 0"
proof (induction b arbitrary: a)
  case Nil
  then show ?case by (simp add: dotProduct_def)
next
  case (Cons y b)
  then show ?case by (cases a) (simp_all add: dotProduct_def)
qed

lemma cosineDenominator_nonzero: "cosineDenominator a b \<noteq> 0"
  by (simp add: cosineDenominator_def Let_def split: prod.splits)

text \<open>
  Claim C5. The cosine score never divides by zero. For vectors \<open>a\<close> and \<open>b\<close> of equal
  length it is the dot product divided by the product of the two norms when both norms
  are nonzero, and the dot product itself when a norm is zero; that dot product is then 0,
  so the score against an all-zero vector is 0.
\<close>

theorem cosine_never_divides_by_zero:
  assumes "length a = length b"
  shows "cosineDenominator a b \<noteq> 0
     \<and> cosine a b = Some (if euclideanNorm a \<noteq> 0 \<and> euclideanNorm b \<noteq> 0
                          then dotProduct a b / (euclideanNorm a * euclideanNorm b)
                          else dotProduct a b)
     \<and> (euclideanNorm a = 0 \<or> euclideanNorm b = 0 \<longrightarrow> cosine a b = Some 0)
     \<and> (b = replicate (length a) 0 \<longrightarrow> cosine a b = Some 0)"
proof -
  have main: "cosine a b = Some (if euclideanNorm a \<noteq> 0 \<and> euclideanNorm b \<noteq> 0
                          then dotProduct a b / (euclideanNorm a * euclideanNorm b)
                          else dotProduct a b)"
    using assms by (simp add: cosine_def cosineDenominator_def cosineSums_eq euclideanNorm_def)
  have z: "dotProduct a b = 0" if "euclideanNorm a = 0 \<or> euclideanNorm b = 0"
    using that dotProduct_zero_left dotProduct_zero_right
    by (auto simp: euclideanNorm_def sumSquares_zero_iff)
  have r: "euclideanNorm (replicate n 0) = 0" for n
    by (simp add: euclideanNorm_def sumSquares_replicate_zero)
  from main z r show ?thesis by (auto simp: cosineDenominator_nonzero)
qed

theorem cosine_never_divides_by_zero_witness:
  "length [1, 0 :: real] = length [1, 0 :: real]
   \<and> cosine [1, 0] [1, 0] = Some 1 \<and> cosine [1, 0] [0, 0] = Some 0
   \<and> cosineDenominator [1, 0] [0, 0] = 1"
proof -
  have l: "length [1, 0 :: real] = length [1, 0 :: real]" by simp
  have l2: "length [1, 0 :: real] = length [0, 0 :: real]" by simp
  show ?thesis
    using cosine_never_divides_by_zero [OF l] cosine_never_divides_by_zero [OF l2]
    by (simp add: euclideanNorm_def sumSquares_def dotProduct_def cosineDenominator_def
        cosineSums_def)
qed

section \<open>Ranking\<close>

lemma set_insertSorted: "set (insertSorted x ys) = insert x (set ys)"
  by (induction ys) auto

lemma length_insertSorted: "length (insertSorted x ys) = Suc (length ys)"
  by (induction ys) auto

lemma length_jsSort: "length (jsSort xs) = length xs"
  by (induction xs) (simp_all add: jsSort_def length_insertSorted)

lemma set_jsSort: "set (jsSort xs) = set xs"
  by (induction xs) (simp_all add: jsSort_def set_insertSorted)

lemma scoreAtLeast_total:
  "score a \<noteq> None \<Longrightarrow> score b \<noteq> None \<Longrightarrow> \<not> sortCompare a b \<le> 0 \<Longrightarrow> scoreAtLeast b a"
  by (auto simp: scoreAtLeast_def sortCompare_def compareFn_def)

lemma scoreAtLeast_first:
  "score a \<noteq> None \<Longrightarrow> score b \<noteq> None \<Longrightarrow> sortCompare a b \<le> 0 \<Longrightarrow> scoreAtLeast a b"
  by (auto simp: scoreAtLeast_def sortCompare_def compareFn_def)

lemma scoreAtLeast_trans: "scoreAtLeast a b \<Longrightarrow> scoreAtLeast b c \<Longrightarrow> scoreAtLeast a c"
  by (auto simp: scoreAtLeast_def split: option.splits)

lemma sorted_insertSorted:
  "score x \<noteq> None \<Longrightarrow> \<forall>y\<in>set ys. score y \<noteq> None \<Longrightarrow> sorted_wrt scoreAtLeast ys
   \<Longrightarrow> sorted_wrt scoreAtLeast (insertSorted x ys)"
proof (induction ys)
  case Nil
  then show ?case by simp
next
  case (Cons y ys)
  show ?case
  proof (cases "sortCompare x y \<le> 0")
    case True
    then have xy: "scoreAtLeast x y" using Cons.prems by (simp add: scoreAtLeast_first)
    then have "\<forall>z\<in>set ys. scoreAtLeast x z"
      using Cons.prems(3) scoreAtLeast_trans by auto
    with True xy Cons.prems(3) show ?thesis by simp
  next
    case False
    then have yx: "scoreAtLeast y x" using Cons.prems by (simp add: scoreAtLeast_total)
    from Cons have "sorted_wrt scoreAtLeast (insertSorted x ys)" by simp
    with False yx Cons.prems(3) show ?thesis by (simp add: set_insertSorted)
  qed
qed

lemma sorted_jsSort:
  "\<forall>x\<in>set xs. score x \<noteq> None \<Longrightarrow> sorted_wrt scoreAtLeast (jsSort xs)"
proof (induction xs)
  case Nil
  then show ?case by (simp add: jsSort_def)
next
  case (Cons x xs)
  then have "sorted_wrt scoreAtLeast (insertSorted x (jsSort xs))"
    by (intro sorted_insertSorted) (simp_all add: set_jsSort)
  then show ?case by (simp add: jsSort_def)
qed

lemma sorted_wrt_take: "sorted_wrt P xs \<Longrightarrow> sorted_wrt P (take n xs)"
proof (induction xs arbitrary: n)
  case Nil
  then show ?case by simp
next
  case (Cons x xs)
  then show ?case by (cases n) (auto dest: in_set_takeD)
qed

lemma score_scored: "length qv \<le> length (vector r) \<Longrightarrow> score (scored qv r) \<noteq> None"
  by (simp add: scored_def cosine_def split: prod.splits)

lemma sumSquares_unit: "i < d \<Longrightarrow> sumSquares ((replicate d 0)[i := 1]) = 1"
proof (induction d arbitrary: i)
  case 0
  then show ?case by simp
next
  case (Suc d)
  then show ?case
    by (cases i) (simp_all add: sumSquares_sum_list sum_list_replicate)
qed

lemma pseudoEmbedVector_single:
  assumes "normalizeTokens t = [tok]" and "hashToken tok mod d = i" and "0 < d"
  shows "pseudoEmbedVector t d = (replicate d 0)[i := 1]"
proof -
  have i: "i < d" using assms(2,3) by auto
  have "fold (addToken d) (normalizeTokens t) (replicate d 0) = (replicate d 0)[i := 1]"
    using assms i by (simp add: addToken_def)
  then show ?thesis
    using i by (simp add: pseudoEmbedVector_def Let_def sumSquares_unit)
qed

lemma normalizeTokens_a: "normalizeTokens ''a'' = [''a'']"
  by code_simp

lemma hashToken_a: "hashToken ''a'' = 97"
  by (simp add: hashToken_def charCode_def)

lemma pseudoEmbed_a: "pseudoEmbed ''a'' (Some 2) = [0, 1]"
proof -
  have "hashToken ''a'' mod 2 = 1" by (simp add: hashToken_a)
  from pseudoEmbedVector_single [OF normalizeTokens_a this]
  show ?thesis by (simp add: pseudoEmbed_def numeral_2_eq_2)
qed

lemma inMemory_smallState: "inMemory smallState = Some smallRecords"
  by (simp add: smallState_def)

lemma dims_smallState: "dims smallState = Some 2"
  by (simp add: smallState_def)

lemma search_small:
  "similaritySearch smallState ''a'' (Some 2) (Some [''event'']) None = Inr smallRanking"
  by (simp add: similaritySearch_def smallState_def smallRecords_def pseudoEmbed_a Let_def
     skippedByKind_def skippedByHint_def scored_def cosine_def cosineDenominator_def cosineSums_def
     jsSort_def sortCompare_def compareFn_def initialState_def smallRanking_def)

text \<open>
  Claim C9. Without an index in memory the search fails with the error
  \<^verbatim>\<open>Embedding index not loaded\<close>; it does not return an empty result. With an index in
  memory it returns a result and never this error.
\<close>

theorem similaritySearch_not_loaded:
  "(inMemory s = None \<longrightarrow> similaritySearch s q limit fk h = Inl EmbeddingIndexNotLoaded)
   \<and> (inMemory s \<noteq> None \<longrightarrow> (\<exists>out. similaritySearch s q limit fk h = Inr out))
   \<and> errorMessage EmbeddingIndexNotLoaded = Some ''Embedding index not loaded''"
  by (auto simp: similaritySearch_def Let_def)

theorem similaritySearch_not_loaded_witness:
  "inMemory (initialState exampleEnv False None) = None
   \<and> similaritySearch (initialState exampleEnv False None) ''a'' None None None
       = Inl EmbeddingIndexNotLoaded
   \<and> inMemory smallState \<noteq> None
   \<and> similaritySearch smallState ''a'' (Some 2) (Some [''event'']) None = Inr smallRanking"
  using similaritySearch_not_loaded [of "initialState exampleEnv False None" "''a''" None None None]
    similaritySearch_not_loaded [of smallState "''a''" "Some 2" "Some [''event'']" None]
  by (simp add: initialState_def search_small inMemory_smallState)

section \<open>Loading the persisted index\<close>

text \<open>
  Claim C3. \<^verbatim>\<open>ensureEmbeddingsLoaded\<close> returns true and leaves the whole state, the log of
  file-system calls included, as it was when an index is in memory. Otherwise, when there
  is no index file path, or the file is missing, unreadable or unparseable, or holds
  \<^verbatim>\<open>null\<close>, or holds a value whose \<^verbatim>\<open>version\<close> is not the current format version (also a
  value with no \<^verbatim>\<open>version\<close>), it returns false (no error is raised) and the index in memory
  and \<^verbatim>\<open>dims\<close> stay as they were. When the file parses to a value with the current version,
  it adopts what that value holds as records and dims and returns true; the value is not
  validated, so for a text such as \<^verbatim>\<open>{"version":2}\<close> the call returns true with
  \<^verbatim>\<open>inMemory\<close> and \<^verbatim>\<open>dims\<close> both \<^verbatim>\<open>undefined\<close>. It returns true in no other case.
\<close>

theorem ensureEmbeddingsLoaded_cases:
  "(inMemory s \<noteq> None \<longrightarrow> ensureEmbeddingsLoaded env s = (True, s))
   \<and> (inMemory s = None \<and>
        (indexFilePath env = None \<or> indexFile s = None \<or> indexFile s = Some Unreadable
         \<or> indexFile s = Some Malformed \<or> indexFile s = Some NullJson
         \<or> (\<exists>f. indexFile s = Some (IndexJson f) \<and> version f \<noteq> INDEX_VERSION)
         \<or> (\<exists>p. indexFile s = Some (OtherJson p) \<and> read_version p \<noteq> Some INDEX_VERSION))
      \<longrightarrow> fst (ensureEmbeddingsLoaded env s) = False
          \<and> inMemory (snd (ensureEmbeddingsLoaded env s)) = inMemory s
          \<and> dims (snd (ensureEmbeddingsLoaded env s)) = dims s
          \<and> indexFile (snd (ensureEmbeddingsLoaded env s)) = indexFile s)
   \<and> (inMemory s = None \<and> indexFilePath env \<noteq> None
        \<and> indexFile s = Some (IndexJson f) \<and> version f = INDEX_VERSION
      \<longrightarrow> fst (ensureEmbeddingsLoaded env s) = True
          \<and> inMemory (snd (ensureEmbeddingsLoaded env s)) = Some (records f)
          \<and> dims (snd (ensureEmbeddingsLoaded env s)) = Some (file_dims f)
          \<and> indexFile (snd (ensureEmbeddingsLoaded env s)) = indexFile s)
   \<and> (inMemory s = None \<and> indexFilePath env \<noteq> None
        \<and> indexFile s = Some (OtherJson p) \<and> read_version p = Some INDEX_VERSION
      \<longrightarrow> fst (ensureEmbeddingsLoaded env s) = True
          \<and> inMemory (snd (ensureEmbeddingsLoaded env s)) = read_records p
          \<and> dims (snd (ensureEmbeddingsLoaded env s)) = read_dims p
          \<and> indexFile (snd (ensureEmbeddingsLoaded env s)) = indexFile s)
   \<and> (fst (ensureEmbeddingsLoaded env s) \<longrightarrow>
        inMemory s \<noteq> None
        \<or> (indexFilePath env \<noteq> None
            \<and> ((\<exists>g. indexFile s = Some (IndexJson g) \<and> version g = INDEX_VERSION)
                \<or> (\<exists>q. indexFile s = Some (OtherJson q) \<and> read_version q = Some INDEX_VERSION))))"
  by (auto simp: ensureEmbeddingsLoaded_def parsedReads_def readsOfIndex_def Let_def
      split: option.splits fileContent.splits)

lemma indexFilePath_exampleEnv:
  "indexFilePath exampleEnv = Some (Join (Join (Root ''/ws'') ''.rhc'') ''embeddings.json'')"
  by (simp add: indexFilePath_def storageDir_def exampleEnv_def)

theorem ensureEmbeddingsLoaded_cases_witness:
  "ensureEmbeddingsLoaded exampleEnv smallState = (True, smallState)
   \<and> fst (ensureEmbeddingsLoaded exampleEnv (initialState exampleEnv False None)) = False
   \<and> fst (ensureEmbeddingsLoaded exampleEnv (initialState exampleEnv True (Some Malformed))) = False
   \<and> fst (ensureEmbeddingsLoaded exampleEnv (initialState exampleEnv True (Some NullJson))) = False
   \<and> fst (ensureEmbeddingsLoaded exampleEnv
            (initialState exampleEnv True (Some (OtherJson emptyObject)))) = False
   \<and> dims (snd (ensureEmbeddingsLoaded exampleEnv
            (initialState exampleEnv True (Some (OtherJson emptyObject))))) = Some 128
   \<and> fst (ensureEmbeddingsLoaded exampleEnv
            (initialState exampleEnv True (Some (IndexJson staleFile)))) = False
   \<and> inMemory (snd (ensureEmbeddingsLoaded exampleEnv
            (initialState exampleEnv True (Some (IndexJson staleFile))))) = None
   \<and> dims (snd (ensureEmbeddingsLoaded exampleEnv
            (initialState exampleEnv True (Some (IndexJson staleFile))))) = Some 128
   \<and> fst (ensureEmbeddingsLoaded exampleEnv
            (initialState exampleEnv True (Some (IndexJson currentFile)))) = True
   \<and> inMemory (snd (ensureEmbeddingsLoaded exampleEnv
            (initialState exampleEnv True (Some (IndexJson currentFile))))) = Some smallRecords
   \<and> dims (snd (ensureEmbeddingsLoaded exampleEnv
            (initialState exampleEnv True (Some (IndexJson currentFile))))) = Some 2
   \<and> fst (ensureEmbeddingsLoaded exampleEnv
            (initialState exampleEnv True (Some (OtherJson versionOnly)))) = True
   \<and> inMemory (snd (ensureEmbeddingsLoaded exampleEnv
            (initialState exampleEnv True (Some (OtherJson versionOnly))))) = None
   \<and> dims (snd (ensureEmbeddingsLoaded exampleEnv
            (initialState exampleEnv True (Some (OtherJson versionOnly))))) = None"
  using ensureEmbeddingsLoaded_cases [of smallState exampleEnv]
    ensureEmbeddingsLoaded_cases [of "initialState exampleEnv False None" exampleEnv]
    ensureEmbeddingsLoaded_cases [of "initialState exampleEnv True (Some Malformed)" exampleEnv]
    ensureEmbeddingsLoaded_cases [of "initialState exampleEnv True (Some NullJson)" exampleEnv]
    ensureEmbeddingsLoaded_cases [of "initialState exampleEnv True (Some (OtherJson emptyObject))" exampleEnv]
    ensureEmbeddingsLoaded_cases [of "initialState exampleEnv True (Some (IndexJson staleFile))" exampleEnv]
    ensureEmbeddingsLoaded_cases [of "initialState exampleEnv True (Some (IndexJson currentFile))" exampleEnv currentFile]
    ensureEmbeddingsLoaded_cases [of "initialState exampleEnv True (Some (OtherJson versionOnly))" exampleEnv _ versionOnly]
  by (simp add: inMemory_smallState initialState_def indexFilePath_exampleEnv staleFile_def
      currentFile_def versionOnly_def emptyObject_def INDEX_VERSION_def DEFAULT_DIMS_def)

section \<open>The dimensionality of the index\<close>

lemma length_embed_vectors: "v \<in> set (embed e ts) \<Longrightarrow> length v = embedder_dims e"
  by (auto simp: embed_eq pseudoEmbed_def length_pseudoEmbedVector)

lemma embedder_dims_nonzero: "embedder_dims e \<noteq> 0"
  by (cases e) simp_all

lemma zip3_third: "(a, b, c) \<in> set (zip xs (zip ys zs)) \<Longrightarrow> c \<in> set zs"
  by (blast dest: set_zip_rightD)

lemma policyRecords_dims:
  assumes "r \<in> set (policyRecords e p)"
  shows "length (vector r) = embedder_dims e"
proof -
  let ?rt = "execPolicyFile (entry_file p)"
  let ?texts = "map (\<lambda>ev. joinStrings '' ''
                   (filterBooleanOpt [eventId ev, title ev, reasonType ev, ?rt])) (events p)"
  from assms consider
    (policy) "vector r = hd (embed e [joinStrings '' ''
                 (filterBooleanOpt [Some (entry_file p), ?rt])])"
    | (event) ev tx vec where "(ev, tx, vec) \<in> set (zip (events p) (zip ?texts (embed e ?texts)))"
        and "vector r = vec"
    unfolding policyRecords_def Let_def by fastforce
  then show ?thesis
  proof cases
    case policy
    then show ?thesis by (simp add: embed_eq pseudoEmbed_def length_pseudoEmbedVector)
  next
    case event
    from event(1) have "vec \<in> set (embed e ?texts)" by (rule zip3_third)
    with event(2) show ?thesis by (simp add: length_embed_vectors)
  qed
qed

lemma docFileRecords_dims:
  assumes "r \<in> set (docFileRecords e fc)"
  shows "length (vector r) = embedder_dims e"
proof (cases fc)
  case (Pair f content)
  show ?thesis
  proof (cases content)
    case None
    with Pair assms show ?thesis by (simp add: docFileRecords_def)
  next
    case (Some tx)
    with Pair assms obtain i c vec where
      "(i, c, vec) \<in> set (zip [0..<length (chunkText tx 800)]
          (zip (chunkText tx 800) (embed e (chunkText tx 800))))" and "vector r = vec"
      unfolding docFileRecords_def Let_def by fastforce
    then show ?thesis using zip3_third length_embed_vectors by metis
  qed
qed

lemma docRecords_dims:
  "r \<in> set (fst (docRecords env e)) \<Longrightarrow> length (vector r) = embedder_dims e"
  by (auto simp: docRecords_def Let_def docFileRecords_dims
      split: if_splits option.splits docDirectory.splits)

lemma builtRecords_dims:
  "vectorsHaveDims (embedder_dims (createEmbedder env)) (builtRecords env idx)"
  by (auto simp: vectorsHaveDims_def builtRecords_def policyRecords_dims docRecords_dims)

lemma persist_memory:
  "inMemory (snd (persist env recs d s)) = inMemory s \<and> dims (snd (persist env recs d s)) = dims s
   \<and> embedder (snd (persist env recs d s)) = embedder s
   \<and> outputLines (snd (persist env recs d s)) = outputLines s"
  by (simp add: persist_def Let_def split: option.splits)

lemma persist_indexFile:
  "indexFile (snd (persist env recs d s)) =
     (if storageDir env \<noteq> None \<and> writable env
      then Some (IndexJson \<lparr> version = INDEX_VERSION, created = now env, records = recs,
                              file_dims = d, sourceMtimeHash = None \<rparr>)
      else indexFile s)"
  by (simp add: persist_def Let_def split: option.splits)

lemma persist_result:
  "fst (persist env recs d s) = (if storageDir env \<noteq> None \<and> \<not> writable env
      then Some FileSystemError else None)"
  by (simp add: persist_def Let_def split: option.splits)

lemma diskConsistent_persist:
  "diskConsistent s \<Longrightarrow> vectorsHaveDims d recs \<Longrightarrow> diskConsistent (snd (persist env recs d s))"
  by (simp add: diskConsistent_def persist_indexFile)

lemma diskConsistent_log [simp]: "diskConsistent (s\<lparr> fsLog := l \<rparr>) = diskConsistent s"
  by (simp add: diskConsistent_def)

lemma diskConsistent_embedder [simp]: "diskConsistent (s\<lparr> embedder := e \<rparr>) = diskConsistent s"
  by (simp add: diskConsistent_def)

lemma buildEmbeddingIndex_Some:
  assumes "currentIndex env = Some idx"
  shows "buildEmbeddingIndex env out s =
    (let e = createEmbedder env;
         p = persist env (builtRecords env idx) (embedder_dims e)
               (s\<lparr> embedder := e, fsLog := fsLog s @ snd (docRecords env e) \<rparr>)
     in case fst p of
          Some err \<Rightarrow> (Some err, snd p)
        | None \<Rightarrow>
            (None,
             if out
             then (snd p)\<lparr> inMemory := Some (builtRecords env idx), dims := Some (embedder_dims e),
                    outputLines := outputLines (snd p) @
                      [''[RHC AI] Embedding index built with ''
                         @ showNat (length (builtRecords env idx))
                         @ '' records (dims='' @ showNat (embedder_dims e) @ '').''] \<rparr>
             else (snd p)\<lparr> inMemory := Some (builtRecords env idx), dims := Some (embedder_dims e) \<rparr>))"
  using assms
  by (simp add: buildEmbeddingIndex_def Let_def embedder_dims_nonzero
      split: prod.splits option.splits)

lemma indexInvariant_build:
  assumes "indexInvariant s"
  shows "indexInvariant (snd (buildEmbeddingIndex env out s))"
proof (cases "currentIndex env")
  case None
  with assms show ?thesis by (simp add: buildEmbeddingIndex_def)
next
  case (Some idx)
  let ?e = "createEmbedder env"
  let ?s2 = "s\<lparr> embedder := ?e, fsLog := fsLog s @ snd (docRecords env ?e) \<rparr>"
  let ?p = "persist env (builtRecords env idx) (embedder_dims ?e) ?s2"
  have dc: "diskConsistent (snd ?p)"
    using assms by (intro diskConsistent_persist builtRecords_dims) (simp add: indexInvariant_def)
  have mem: "inMemory (snd ?p) = inMemory s" "dims (snd ?p) = dims s"
    by (simp_all add: persist_memory)
  have inv: "indexInvariant (snd ?p)"
    using assms dc by (simp add: indexInvariant_def mem split: option.splits)
  have new: "indexInvariant ((snd ?p)\<lparr> inMemory := Some (builtRecords env idx),
                 dims := Some (embedder_dims ?e) \<rparr>)"
    using dc builtRecords_dims[of env idx] by (simp add: indexInvariant_def diskConsistent_def)
  then have new': "indexInvariant ((snd ?p)\<lparr> inMemory := Some (builtRecords env idx),
                 dims := Some (embedder_dims ?e), outputLines := l \<rparr>)" for l
    by (simp add: indexInvariant_def diskConsistent_def)
  show ?thesis
    unfolding buildEmbeddingIndex_Some[OF Some] Let_def
    using inv new new' by (simp split: option.splits)
qed

lemma indexInvariant_load:
  assumes "indexInvariant s"
  shows "indexInvariant (snd (ensureEmbeddingsLoaded env s))"
  using assms
  by (auto simp: ensureEmbeddingsLoaded_def parsedReads_def readsOfIndex_def indexInvariant_def
      diskConsistent_def Let_def
      split: option.splits fileContent.splits)

lemma reachable_invariant: "reachable s \<Longrightarrow> indexInvariant s"
proof (induction rule: reachable.induct)
  case (start env dirExists content)
  then show ?case by (simp add: indexInvariant_def initialState_def)
next
  case (build s env out)
  then show ?case by (simp add: indexInvariant_build)
next
  case (load s env)
  then show ?case by (simp add: indexInvariant_load)
qed

text \<open>
  Claim C4. In every state that build and load can reach and that has an index in memory,
  \<^verbatim>\<open>dims\<close> holds a number \<open>d\<close>, and the search embeds the query with the pseudo embedding
  at this dimensionality held with the index (adopted at the last successful build or
  load). The search does not read the configuration, and the embedder that the module
  holds for the configured provider has no part in it. The query vector has that length,
  and so has every stored vector.
\<close>

theorem similaritySearch_uses_stored_dims:
  assumes "reachable s" and "inMemory s = Some rs"
  shows "\<exists>d. dims s = Some d
       \<and> similaritySearch s query limit filterKind hint =
           Inr (take (case limit of None \<Rightarrow> 10 | Some k \<Rightarrow> k)
                 (jsSort (map (scored (pseudoEmbedVector query d))
                    (filter (\<lambda>r. \<not> skippedByKind filterKind r \<and> \<not> skippedByHint hint r) rs))))
       \<and> similaritySearch (s\<lparr> embedder := e \<rparr>) query limit filterKind hint
           = similaritySearch s query limit filterKind hint
       \<and> length (pseudoEmbedVector query d) = d
       \<and> (\<forall>r\<in>set rs. length (vector r) = length (pseudoEmbedVector query d))"
proof -
  from reachable_invariant[OF assms(1)] assms(2)
  obtain d where d: "dims s = Some d" and "vectorsHaveDims d rs"
    by (auto simp: indexInvariant_def split: option.splits)
  then show ?thesis
    using assms(2)
    by (simp add: similaritySearch_def Let_def pseudoEmbed_def length_pseudoEmbedVector
        vectorsHaveDims_def)
qed

lemma loadedState_eq:
  "loadedState = (initialState exampleEnv True (Some (IndexJson currentFile)))
     \<lparr> fsLog := [ExistsSync (Join (Join (Root ''/ws'') ''.rhc'') ''embeddings.json''),
                 ReadFileSync (Join (Join (Root ''/ws'') ''.rhc'') ''embeddings.json'')],
       inMemory := Some smallRecords, dims := Some 2 \<rparr>"
  by (simp add: loadedState_def ensureEmbeddingsLoaded_def parsedReads_def readsOfIndex_def
      indexFilePath_exampleEnv Let_def
      initialState_def currentFile_def INDEX_VERSION_def)

lemma reachable_loadedState: "reachable loadedState"
  unfolding loadedState_def
  by (intro reachable.load reachable.start)
     (simp add: diskConsistent_def initialState_def currentFile_def vectorsHaveDims_def
        smallRecords_def)

lemma pseudoEmbedVector_a: "pseudoEmbedVector ''a'' 2 = [0, 1]"
  using pseudoEmbed_a by (simp add: pseudoEmbed_def)

lemma search_loaded:
  "similaritySearch loadedState ''a'' (Some 2) (Some [''event'']) None = Inr smallRanking"
  by (simp add: similaritySearch_def loadedState_eq smallRecords_def pseudoEmbed_a Let_def
     skippedByKind_def skippedByHint_def scored_def cosine_def cosineDenominator_def cosineSums_def
     jsSort_def sortCompare_def compareFn_def initialState_def smallRanking_def)

theorem similaritySearch_uses_stored_dims_witness:
  "reachable loadedState \<and> inMemory loadedState = Some smallRecords
   \<and> embedder_dims (embedder loadedState) = 128 \<and> dims loadedState = Some 2
   \<and> similaritySearch loadedState ''a'' (Some 2) (Some [''event'']) None = Inr smallRanking
   \<and> similaritySearch (loadedState\<lparr> embedder := AzureOpenAIStubEmbedder \<rparr>) ''a'' (Some 2)
         (Some [''event'']) None = Inr smallRanking
   \<and> length (pseudoEmbedVector ''a'' 2) = 2
   \<and> map (\<lambda>r. length (vector r)) smallRecords = [2, 2, 2]"
proof -
  have m: "inMemory loadedState = Some smallRecords" by (simp add: loadedState_eq)
  have d: "dims loadedState = Some 2" by (simp add: loadedState_eq)
  have e: "embedder_dims (embedder loadedState) = 128"
    by (simp add: loadedState_eq initialState_def createEmbedder_def exampleEnv_def)
  note t = similaritySearch_uses_stored_dims [OF reachable_loadedState m,
      of "''a''" "Some 2" "Some [''event'']" None AzureOpenAIStubEmbedder]
  from t have l: "length (pseudoEmbedVector ''a'' 2) = 2"
    and v: "\<forall>r\<in>set smallRecords. length (vector r) = length (pseudoEmbedVector ''a'' 2)"
    unfolding d by auto
  from t have f: "similaritySearch (loadedState\<lparr> embedder := AzureOpenAIStubEmbedder \<rparr>) ''a''
      (Some 2) (Some [''event'']) None = Inr smallRanking"
    unfolding search_loaded by blast
  from v l have "map (\<lambda>r. length (vector r)) smallRecords = [2, 2, 2]"
    by (simp add: smallRecords_def)
  with m d e l f show ?thesis
    by (simp add: reachable_loadedState search_loaded)
qed

section \<open>Order and length of the search result\<close>

text \<open>
  Claim C6. For every index that build and load have produced, and for every index whose
  vectors have at least the dimensionality of the index (the one at which the search
  embeds the query: \<^verbatim>\<open>dims\<close>, or the default when \<^verbatim>\<open>dims\<close> is undefined), for every
  query, every filter and every limit \<open>k\<close> (10 when none is given), the search returns a sequence sorted
  in non-increasing order of score, of length at most \<open>k\<close>: the smaller of \<open>k\<close> and
  the number of records that pass the kind and resource-type filters.
\<close>

theorem similaritySearch_sorted_limited:
  assumes "inMemory s = Some rs"
    and "reachable s \<or> (\<forall>r\<in>set rs. searchDims s \<le> length (vector r))"
  shows "\<exists>out. similaritySearch s q limit fk h = Inr out
      \<and> sortedByScore out
      \<and> length out \<le> (case limit of None \<Rightarrow> 10 | Some k \<Rightarrow> k)
      \<and> length out = min (case limit of None \<Rightarrow> 10 | Some k \<Rightarrow> k)
            (length (filter (\<lambda>r. \<not> skippedByKind fk r \<and> \<not> skippedByHint h r) rs))"
proof -
  let ?qv = "pseudoEmbed q (dims s)"
  let ?pool = "filter (\<lambda>r. \<not> skippedByKind fk r \<and> \<not> skippedByHint h r) rs"
  let ?out = "map (scored ?qv) ?pool"
  let ?k = "case limit of None \<Rightarrow> 10 | Some k \<Rightarrow> k"
  have res: "similaritySearch s q limit fk h = Inr (take ?k (jsSort ?out))"
    using assms(1) by (simp add: similaritySearch_def Let_def)
  have long: "\<forall>r\<in>set rs. searchDims s \<le> length (vector r)"
  proof (cases "reachable s")
    case True
    from reachable_invariant[OF True] assms(1) have "vectorsHaveDims (searchDims s) rs"
      by (auto simp: indexInvariant_def searchDims_def split: option.splits)
    then show ?thesis by (simp add: vectorsHaveDims_def)
  next
    case False
    with assms(2) show ?thesis by simp
  qed
  have "length ?qv = searchDims s"
    by (simp add: pseudoEmbed_def searchDims_def length_pseudoEmbedVector)
  then have "\<forall>x\<in>set ?out. score x \<noteq> None"
    using long by (auto intro!: score_scored[simplified])
  then have "sorted_wrt scoreAtLeast (take ?k (jsSort ?out))"
    by (intro sorted_wrt_take sorted_jsSort)
  moreover have "length (take ?k (jsSort ?out)) = min ?k (length ?pool)"
    by (simp add: length_jsSort min.commute)
  ultimately show ?thesis using res by (simp add: sortedByScore_def)
qed

theorem similaritySearch_sorted_limited_witness:
  "inMemory smallState = Some smallRecords
   \<and> similaritySearch smallState ''a'' (Some 2) (Some [''event'']) None = Inr smallRanking
   \<and> sortedByScore smallRanking \<and> length smallRanking \<le> 2
   \<and> reachable loadedState
   \<and> similaritySearch loadedState ''a'' (Some 2) (Some [''event'']) None = Inr smallRanking"
proof -
  have v: "reachable smallState
      \<or> (\<forall>r\<in>set smallRecords. searchDims smallState \<le> length (vector r))"
    by (simp add: smallRecords_def searchDims_def dims_smallState)
  have m: "inMemory loadedState = Some smallRecords" by (simp add: loadedState_eq)
  have r: "reachable loadedState
      \<or> (\<forall>r\<in>set smallRecords. searchDims loadedState \<le> length (vector r))"
    by (simp add: reachable_loadedState)
  show ?thesis
    using similaritySearch_sorted_limited [OF inMemory_smallState v, of "''a''" "Some 2"
        "Some [''event'']" None]
      similaritySearch_sorted_limited [OF m r, of "''a''" "Some 2" "Some [''event'']" None]
    by (simp add: search_small search_loaded inMemory_smallState reachable_loadedState)
qed

section \<open>Building and persisting the index\<close>

lemma persist_storageDirExists:
  "storageDirExists (snd (persist env recs d s)) =
     (if storageDir env \<noteq> None \<and> (writable env \<or> storageDirExists s) then True
      else storageDirExists s)"
  by (simp add: persist_def Let_def split: option.splits)

lemma persist_fsLog: "prefix (fsLog s) (fsLog (snd (persist env recs d s)))"
  by (simp add: persist_def Let_def split: option.splits)

lemma build_fst:
  "currentIndex env = Some idx \<Longrightarrow>
   fst (buildEmbeddingIndex env out s) =
     (if storageDir env \<noteq> None \<and> \<not> writable env then Some FileSystemError else None)"
  by (simp add: buildEmbeddingIndex_Some Let_def persist_result)

lemma build_indexFile:
  "currentIndex env = Some idx \<Longrightarrow>
   indexFile (snd (buildEmbeddingIndex env out s)) =
     (if storageDir env \<noteq> None \<and> writable env then Some (IndexJson (builtPayload env idx))
      else indexFile s)"
  by (simp add: buildEmbeddingIndex_Some Let_def persist_result persist_indexFile builtPayload_def)

lemma build_storageDirExists:
  "currentIndex env = Some idx \<Longrightarrow>
   storageDirExists (snd (buildEmbeddingIndex env out s)) =
     (if storageDir env \<noteq> None \<and> (writable env \<or> storageDirExists s) then True
      else storageDirExists s)"
  by (simp add: buildEmbeddingIndex_Some Let_def persist_result persist_storageDirExists)

lemma build_memory:
  "currentIndex env = Some idx \<Longrightarrow> fst (buildEmbeddingIndex env out s) = None \<Longrightarrow>
   inMemory (snd (buildEmbeddingIndex env out s)) = Some (builtRecords env idx)
   \<and> dims (snd (buildEmbeddingIndex env out s)) = Some (embedder_dims (createEmbedder env))"
  by (simp add: buildEmbeddingIndex_Some Let_def split: option.splits)

lemma build_memory_failed:
  assumes "fst (buildEmbeddingIndex env out s) \<noteq> None"
  shows "inMemory (snd (buildEmbeddingIndex env out s)) = inMemory s
   \<and> dims (snd (buildEmbeddingIndex env out s)) = dims s"
proof (cases "currentIndex env")
  case None
  then show ?thesis by (simp add: buildEmbeddingIndex_def)
next
  case (Some idx)
  from assms show ?thesis
    unfolding buildEmbeddingIndex_Some[OF Some] Let_def
    by (simp add: persist_memory split: option.splits)
qed

lemma build_embedder:
  "currentIndex env = Some idx \<Longrightarrow>
   embedder (snd (buildEmbeddingIndex env out s)) = createEmbedder env"
  by (simp add: buildEmbeddingIndex_Some Let_def persist_memory split: option.splits)

lemma build_outputLines:
  "currentIndex env = Some idx \<Longrightarrow>
   outputLines (snd (buildEmbeddingIndex env out s)) =
     (if out \<and> fst (buildEmbeddingIndex env out s) = None
      then outputLines s @ [builtLine env idx] else outputLines s)"
  by (simp add: buildEmbeddingIndex_Some Let_def persist_memory builtLine_def
      split: option.splits)

lemma build_fsLog:
  "prefix (fsLog s) (fsLog (snd (buildEmbeddingIndex env out s)))"
proof (cases "currentIndex env")
  case None
  then show ?thesis by (simp add: buildEmbeddingIndex_def)
next
  case (Some idx)
  let ?e = "createEmbedder env"
  let ?s2 = "s\<lparr> embedder := ?e, fsLog := fsLog s @ snd (docRecords env ?e) \<rparr>"
  have "prefix (fsLog s) (fsLog ?s2)" by simp
  also have "prefix (fsLog ?s2) (fsLog (snd (persist env (builtRecords env idx) (embedder_dims ?e) ?s2)))"
    by (rule persist_fsLog)
  finally show ?thesis
    by (simp add: buildEmbeddingIndex_Some[OF Some] Let_def split: option.splits)
qed

text \<open>
  Claim C2. Round trip: for any content index \<open>X\<close>, when a build persists its result
  (there is a workspace folder and the disk can be written) and a new process of the same
  workspace then loads the file, the index in memory is the record list of the build, in the
  same order, and \<^verbatim>\<open>dims\<close> is the one of the build. Records are compared by the values
  of their properties, an optional property without a value counting as absent. The format
  version is the constant of the model in both processes; the settings of the loading
  process may differ.
\<close>

theorem build_persist_load_roundtrip:
  assumes "currentIndex env = Some X" and "indexFilePath env \<noteq> None" and "writable env"
    and "indexFilePath env' = indexFilePath env"
  shows "fst (buildEmbeddingIndex env out s) = None
     \<and> inMemory (snd (buildEmbeddingIndex env out s)) = Some (builtRecords env X)
     \<and> dims (snd (buildEmbeddingIndex env out s)) = Some (embedder_dims (createEmbedder env))
     \<and> fst (ensureEmbeddingsLoaded env' (freshProcess env' (snd (buildEmbeddingIndex env out s))))
         = True
     \<and> inMemory (snd (ensureEmbeddingsLoaded env'
          (freshProcess env' (snd (buildEmbeddingIndex env out s)))))
         = inMemory (snd (buildEmbeddingIndex env out s))
     \<and> dims (snd (ensureEmbeddingsLoaded env'
          (freshProcess env' (snd (buildEmbeddingIndex env out s)))))
         = dims (snd (buildEmbeddingIndex env out s))"
proof -
  let ?s1 = "snd (buildEmbeddingIndex env out s)"
  from assms(2) have sd: "storageDir env \<noteq> None"
    by (auto simp: indexFilePath_def split: option.splits)
  have ok: "fst (buildEmbeddingIndex env out s) = None"
    using assms by (simp add: build_fst)
  have mem: "inMemory ?s1 = Some (builtRecords env X)"
    "dims ?s1 = Some (embedder_dims (createEmbedder env))"
    using build_memory[OF assms(1) ok] by simp_all
  have onDisk: "indexFile ?s1 = Some (IndexJson (builtPayload env X))"
    using assms sd by (simp add: build_indexFile)
  from assms(2,4) obtain p where p: "indexFilePath env' = Some p" by auto
  have "ensureEmbeddingsLoaded env' (freshProcess env' ?s1) =
      (True, (freshProcess env' ?s1)\<lparr> fsLog := [ExistsSync p, ReadFileSync p],
          inMemory := Some (builtRecords env X),
          dims := Some (embedder_dims (createEmbedder env)) \<rparr>)"
    by (simp add: ensureEmbeddingsLoaded_def parsedReads_def readsOfIndex_def freshProcess_def
        initialState_def p onDisk Let_def
        builtPayload_def)
  with ok mem show ?thesis by simp
qed

lemma storageDir_exampleEnv: "storageDir exampleEnv = Some (Join (Root ''/ws'') ''.rhc'')"
  by (simp add: storageDir_def exampleEnv_def)

lemma currentIndex_exampleEnv: "currentIndex exampleEnv = Some exampleIndex"
  by (simp add: exampleEnv_def)

lemma writable_exampleEnv: "writable exampleEnv"
  by (simp add: exampleEnv_def)

lemma execPolicyFile_Foo: "execPolicyFile ''PolicyFile_Foo.json'' = Some ''Foo''"
  by code_simp

lemma builtRecords_example_ids:
  "map record_id (builtRecords exampleEnv exampleIndex)
     = [''policy:PolicyFile_Foo.json'', ''event:PolicyFile_Foo.json#Bar'']"
  by (simp add: builtRecords_def policyRecords_def Let_def exampleEnv_def exampleIndex_def
      docRecords_def createEmbedder_def)

lemma createEmbedder_exampleEnv: "createEmbedder exampleEnv = LocalPseudoEmbedder"
  by (simp add: createEmbedder_def exampleEnv_def)

lemma createEmbedder_azureEnv: "createEmbedder azureEnv = AzureOpenAIStubEmbedder"
  by (simp add: createEmbedder_def azureEnv_def exampleEnv_def)

lemma indexFilePath_azureEnv: "indexFilePath azureEnv = indexFilePath exampleEnv"
  by (simp add: indexFilePath_def storageDir_def azureEnv_def)

theorem build_persist_load_roundtrip_witness:
  "currentIndex exampleEnv = Some exampleIndex
   \<and> fst (buildEmbeddingIndex exampleEnv False (initialState exampleEnv False None)) = None
   \<and> inMemory builtState = Some (builtRecords exampleEnv exampleIndex)
   \<and> fst (ensureEmbeddingsLoaded azureEnv (freshProcess azureEnv builtState)) = True
   \<and> inMemory (snd (ensureEmbeddingsLoaded azureEnv (freshProcess azureEnv builtState)))
       = Some (builtRecords exampleEnv exampleIndex)
   \<and> dims builtState = Some 128
   \<and> dims (snd (ensureEmbeddingsLoaded azureEnv (freshProcess azureEnv builtState))) = Some 128
   \<and> embedder_dims (embedder (freshProcess azureEnv builtState)) = 1536
   \<and> map record_id (builtRecords exampleEnv exampleIndex)
       = [''policy:PolicyFile_Foo.json'', ''event:PolicyFile_Foo.json#Bar'']"
proof -
  have p: "indexFilePath exampleEnv \<noteq> None" by (simp add: indexFilePath_exampleEnv)
  have d: "dims builtState = Some 128"
    using build_memory [OF currentIndex_exampleEnv, of False "initialState exampleEnv False None"]
      build_fst [OF currentIndex_exampleEnv, of False "initialState exampleEnv False None"]
    by (simp add: builtState_def writable_exampleEnv createEmbedder_exampleEnv)
  have e: "embedder_dims (embedder (freshProcess azureEnv builtState)) = 1536"
    by (simp add: freshProcess_def initialState_def createEmbedder_azureEnv)
  show ?thesis
    using build_persist_load_roundtrip [OF currentIndex_exampleEnv p writable_exampleEnv indexFilePath_azureEnv,
        of False "initialState exampleEnv False None"]
    by (simp add: builtState_def [symmetric] d e currentIndex_exampleEnv builtRecords_example_ids)
qed

text \<open>
  Claim C7, as amended. With a content index, the build sets the embedder from the
  configuration; when it succeeds it replaces the index in memory and \<^verbatim>\<open>dims\<close>; it
  persists the index itself: with a workspace folder and a writable disk it creates the
  storage directory and writes the payload to the index file, and with no workspace folder
  it leaves directory and file as they were; it appends one line to the output channel
  when one is given; and it only adds to the log of file-system calls.
\<close>

theorem buildEmbeddingIndex_effects:
  assumes "currentIndex env = Some idx"
  shows "(fst (buildEmbeddingIndex env out s) = None \<longleftrightarrow> storageDir env = None \<or> writable env)
     \<and> embedder (snd (buildEmbeddingIndex env out s)) = createEmbedder env
     \<and> (fst (buildEmbeddingIndex env out s) = None \<longrightarrow>
          inMemory (snd (buildEmbeddingIndex env out s)) = Some (builtRecords env idx)
          \<and> dims (snd (buildEmbeddingIndex env out s)) = Some (embedder_dims (createEmbedder env)))
     \<and> (storageDir env = None \<longrightarrow>
          indexFile (snd (buildEmbeddingIndex env out s)) = indexFile s
          \<and> storageDirExists (snd (buildEmbeddingIndex env out s)) = storageDirExists s)
     \<and> (storageDir env \<noteq> None \<and> writable env \<longrightarrow>
          storageDirExists (snd (buildEmbeddingIndex env out s))
          \<and> indexFile (snd (buildEmbeddingIndex env out s))
              = Some (IndexJson (builtPayload env idx)))
     \<and> outputLines (snd (buildEmbeddingIndex env out s)) =
          (if out \<and> fst (buildEmbeddingIndex env out s) = None
           then outputLines s @ [builtLine env idx] else outputLines s)
     \<and> prefix (fsLog s) (fsLog (snd (buildEmbeddingIndex env out s)))"
  using build_memory [OF assms, of out s]
  by (simp add: build_fst [OF assms] build_embedder [OF assms] build_indexFile [OF assms]
      build_storageDirExists [OF assms] build_outputLines [OF assms] build_fsLog)

lemma docRecords_exampleEnv: "docRecords exampleEnv e = ([], [])"
  by (simp add: docRecords_def exampleEnv_def)

lemma fsLog_builtState:
  "fsLog builtState =
     [ExistsSync (Join (Root ''/ws'') ''.rhc''), MkdirSync (Join (Root ''/ws'') ''.rhc''),
      WriteFileSync (Join (Join (Root ''/ws'') ''.rhc'') ''embeddings.json'')]"
  by (simp add: builtState_def buildEmbeddingIndex_Some [OF currentIndex_exampleEnv] Let_def
      persist_def storageDir_exampleEnv writable_exampleEnv initialState_def
      docRecords_exampleEnv)

text \<open>
  Claim C7 as stated (the build has no effect beyond the index in memory, and does not
  persist) fails: a build in the example workspace, started with no index file, creates
  the directory and writes the file.
\<close>

theorem buildEmbeddingIndex_persists_counterexample:
  "indexFile (initialState exampleEnv False None) = None
   \<and> indexFile (snd (buildEmbeddingIndex exampleEnv False (initialState exampleEnv False None)))
       = Some (IndexJson (builtPayload exampleEnv exampleIndex))
   \<and> fsLog (snd (buildEmbeddingIndex exampleEnv False (initialState exampleEnv False None))) =
       [ExistsSync (Join (Root ''/ws'') ''.rhc''), MkdirSync (Join (Root ''/ws'') ''.rhc''),
        WriteFileSync (Join (Join (Root ''/ws'') ''.rhc'') ''embeddings.json'')]"
  using fsLog_builtState
  by (simp add: builtState_def build_indexFile [OF currentIndex_exampleEnv] storageDir_exampleEnv
      writable_exampleEnv initialState_def)

theorem buildEmbeddingIndex_effects_witness:
  "currentIndex exampleEnv = Some exampleIndex
   \<and> fst (buildEmbeddingIndex exampleEnv True (initialState exampleEnv False None)) = None
   \<and> embedder (snd (buildEmbeddingIndex exampleEnv True (initialState exampleEnv False None)))
       = LocalPseudoEmbedder
   \<and> inMemory (snd (buildEmbeddingIndex exampleEnv True (initialState exampleEnv False None)))
       = Some (builtRecords exampleEnv exampleIndex)
   \<and> dims (snd (buildEmbeddingIndex exampleEnv True (initialState exampleEnv False None)))
       = Some 128
   \<and> storageDirExists (snd (buildEmbeddingIndex exampleEnv True (initialState exampleEnv False None)))
   \<and> indexFile (snd (buildEmbeddingIndex exampleEnv True (initialState exampleEnv False None)))
       = Some (IndexJson (builtPayload exampleEnv exampleIndex))
   \<and> outputLines (snd (buildEmbeddingIndex exampleEnv True (initialState exampleEnv False None)))
       = [''[RHC AI] Embedding index built with 2 records (dims=128).'']"
proof -
  have n: "length (builtRecords exampleEnv exampleIndex) = 2"
    using builtRecords_example_ids by (metis length_map length_Cons list.size(3) numeral_2_eq_2)
  have s2: "showNat 2 = ''2''" by code_simp
  have s128: "showNat 128 = ''128''" by code_simp
  show ?thesis
    using buildEmbeddingIndex_effects [OF currentIndex_exampleEnv, of True "initialState exampleEnv False None"]
    by (simp add: storageDir_exampleEnv writable_exampleEnv createEmbedder_exampleEnv
        currentIndex_exampleEnv builtLine_def n s2 s128 initialState_def)
qed

section \<open>Event discovery\<close>

lemma tokensOf_dropWhile: "tokensOf [] (dropWhile isSpace s) = tokensOf [] s"
  by (induction s) simp_all

lemma filterBoolean_splitSpaces: "filterBoolean (splitSpaces cur s) = tokensOf cur s"
proof (induction cur s rule: splitSpaces.induct)
  case (1 cur)
  then show ?case by (simp add: filterBoolean_def)
next
  case (2 cur c cs)
  then show ?case by (simp add: filterBoolean_def tokensOf_dropWhile)
qed

lemma tokensOf_barrier:
  "isSpace w \<Longrightarrow> tokensOf cur (x @ w # y) = tokensOf cur x @ tokensOf [] y"
  by (induction x arbitrary: cur) simp_all

lemma tokensOf_map:
  assumes "\<And>c. isSpace (f c) = isSpace c"
  shows "tokensOf (map f cur) (map f s) = map (map f) (tokensOf cur s)"
proof (induction s arbitrary: cur)
  case Nil
  then show ?case by simp
next
  case (Cons c cs)
  from Cons[of "[]"] Cons[of "cur @ [c]"] show ?case by (simp add: assms)
qed

lemma space_not_letter: "isSpace c \<Longrightarrow> \<not> isLowerAZ c \<and> \<not> isUpperAZ c \<and> \<not> isSeparator c"
  by (auto simp: isSpace_def isLowerAZ_def isUpperAZ_def isSeparator_def charCode_def)

lemma isSpace_lowerChar: "isSpace (lowerChar c) = isSpace c"
  by (auto simp: lowerChar_def isSpace_def isUpperAZ_def charCode_def)

lemma lowerChar_space: "isSpace c \<Longrightarrow> lowerChar c = c"
  by (auto simp: lowerChar_def isSpace_def isUpperAZ_def charCode_def)

lemma replaceCamel_head: "\<not> isLowerAZ w \<Longrightarrow> replaceCamel (w # y) = w # replaceCamel y"
  by (cases y) simp_all

lemma replaceCamel_barrier:
  "\<not> isLowerAZ w \<Longrightarrow> \<not> isUpperAZ w \<Longrightarrow>
   replaceCamel (x @ w # y) = replaceCamel x @ w # replaceCamel y"
  by (induction x rule: replaceCamel.induct) (simp_all add: replaceCamel_head)

lemma replaceSeparators_barrier:
  "\<not> isSeparator w \<Longrightarrow>
   replaceSeparators (x @ w # y) = replaceSeparators x @ w # replaceSeparators y"
proof (induction x rule: replaceSeparators.induct)
  case 1
  then show ?case by simp
next
  case (2 c cs)
  then show ?case by (simp add: dropWhile_append3)
qed

lemma normalizeTokens_tokensOf:
  "normalizeTokens t =
     tokensOf [] (replaceNonAlnum (toLowerCase (replaceSeparators (replaceCamel t))))"
  by (simp add: normalizeTokens_def Let_def filterBoolean_splitSpaces)

lemma normalizeTokens_barrier:
  assumes "isSpace w"
  shows "normalizeTokens (x @ w # y) = normalizeTokens x @ normalizeTokens y"
  using assms space_not_letter[OF assms]
  by (simp add: normalizeTokens_tokensOf replaceCamel_barrier replaceSeparators_barrier
      toLowerCase_def replaceNonAlnum_def lowerChar_space tokensOf_barrier)

lemma normalizeTokens_Nil: "normalizeTokens [] = []"
  by (simp add: normalizeTokens_tokensOf toLowerCase_def replaceNonAlnum_def)

text \<open>A tokenizer that treats white space as a barrier does not see \<^verbatim>\<open>trim\<close> in front of
  white space.\<close>

lemma barrier_trim:
  assumes b: "\<And>w x y. isSpace w \<Longrightarrow> T (x @ w # y) = T x @ T y" and n: "T [] = []"
    and w: "isSpace w"
  shows "T (trim p @ w # z) = T (p @ w # z)"
proof -
  have lead: "T (dropWhile isSpace q @ w # z) = T (q @ w # z)" for q
  proof (induction q)
    case Nil
    then show ?case by simp
  next
    case (Cons c cs)
    show ?case
    proof (cases "isSpace c")
      case True
      from b[OF True, of "[]" "cs @ w # z"] n Cons True show ?thesis by simp
    next
      case False
      then show ?thesis by simp
    qed
  qed
  have trail: "T (rev (dropWhile isSpace (rev q)) @ w # z) = T (q @ w # z)" for q
  proof (induction q rule: rev_induct)
    case Nil
    then show ?case by simp
  next
    case (snoc c cs)
    show ?case
    proof (cases "isSpace c")
      case True
      have "T ((cs @ [c]) @ w # z) = T cs @ T (w # z)" using b[OF True, of cs "w # z"] by simp
      also have "T (w # z) = T z" using b[OF w, of "[]" z] n by simp
      also have "T cs @ T z = T (cs @ w # z)" using b[OF w, of cs z] by simp
      also have "\<dots> = T (rev (dropWhile isSpace (rev cs)) @ w # z)" using snoc by simp
      finally show ?thesis using True by simp
    next
      case False
      then show ?thesis by simp
    qed
  qed
  have "T (trim p @ w # z) = T (dropWhile isSpace p @ w # z)"
    unfolding trim_def by (rule trail)
  then show ?thesis by (simp add: lead)
qed

lemma barrier_trim_end:
  assumes b: "\<And>w x y. isSpace w \<Longrightarrow> T (x @ w # y) = T x @ T y" and n: "T [] = []"
  shows "T (trim p) = T p"
proof -
  have sp: "isSpace CHR '' ''" by (simp add: isSpace_def charCode_def)
  have "T (trim p) = T (trim p @ CHR '' '' # [])" using b[OF sp, of "trim p" "[]"] n by simp
  also have "\<dots> = T (p @ CHR '' '' # [])" by (rule barrier_trim[of T, OF b n sp])
  also have "\<dots> = T p" using b[OF sp, of p "[]"] n by simp
  finally show ?thesis .
qed

lemma normalizeTokens_trim_suffix:
  "isSpace w \<Longrightarrow> normalizeTokens (trim p @ w # z) = normalizeTokens (p @ w # z)"
  by (rule barrier_trim[of normalizeTokens]) (simp_all add: normalizeTokens_barrier normalizeTokens_Nil)

lemma pseudoEmbed_trim_events:
  "pseudoEmbed (trim p @ '' events'') d = pseudoEmbed (p @ '' events'') d"
proof -
  have sp: "isSpace CHR '' ''" by (simp add: isSpace_def charCode_def)
  have "normalizeTokens (trim p @ CHR '' '' # ''events'') = normalizeTokens (p @ CHR '' '' # ''events'')"
    using sp by (rule normalizeTokens_trim_suffix)
  then show ?thesis by (simp add: pseudoEmbed_def pseudoEmbedVector_def)
qed

lemma similaritySearch_trim_events:
  "similaritySearch s (trim p @ '' events'') limit fk h
     = similaritySearch s (p @ '' events'') limit fk h"
  by (simp add: similaritySearch_def pseudoEmbed_trim_events split: option.splits)

lemma tokens_lower_trim:
  "filterBoolean (splitSpaces [] (toLowerCase (trim p)))
     = map toLowerCase (filterBoolean (splitSpaces [] p))"
proof -
  have "tokensOf [] (trim p) = tokensOf [] p"
    by (rule barrier_trim_end[of "tokensOf []"]) (simp_all add: tokensOf_barrier)
  moreover have "tokensOf [] (map lowerChar (trim p)) = map (map lowerChar) (tokensOf [] (trim p))"
    using tokensOf_map[of lowerChar "[]" "trim p"] by (simp add: isSpace_lowerChar)
  ultimately show ?thesis
    by (simp add: filterBoolean_splitSpaces toLowerCase_def[abs_def])
qed

lemma keepsResult_tokens:
  "keepsResult (filterBoolean (splitSpaces [] (toLowerCase (trim phrase)))) r
     = passesPostFilter phrase r"
  by (simp add: keepsResult_def passesPostFilter_def tokens_lower_trim phraseTokens_def
      containsIgnoringCase_def)

lemma prefix_joinStrings: "prefix x (joinStrings sep (x # xs))"
  by (cases xs) simp_all

lemma related_not_fallback:
  "\<not> prefix (fallbackLine n) (joinStrings sep (relatedLine p m # xs))"
  by (cases xs) (simp_all add: fallbackLine_def relatedLine_def)

text \<open>
  Claim C8. Let \<open>sims\<close> be the search results for the phrase with the suffix
  \<^verbatim>\<open>" events"\<close> appended, among the event records. \<^verbatim>\<open>eventsForResourceType\<close> returns
  exactly the results whose text contains, without regard to case, a white-space delimited
  token of the phrase, or whose score is above 0.20. When no result passes, it returns the
  first \<open>min 5 n\<close> of the \<open>n\<close> results and its answer starts with the fallback line;
  otherwise the answer does not start with it.
\<close>

theorem eventsForResourceType_post_filter:
  assumes "similaritySearch s (phrase @ '' events'')
             (Some (case limit of None \<Rightarrow> 15 | Some k \<Rightarrow> k)) (Some [''event'']) None = Inr sims"
  shows "\<exists>ans. eventsForResourceType s phrase limit = Inr ans
     \<and> (filter (passesPostFilter phrase) sims \<noteq> [] \<longrightarrow>
          results ans = filter (passesPostFilter phrase) sims \<and> \<not> flaggedFallback ans)
     \<and> (filter (passesPostFilter phrase) sims = [] \<longrightarrow>
          results ans = take (min 5 (length sims)) sims \<and> flaggedFallback ans)"
proof -
  have k: "keepsResult (filterBoolean (splitSpaces [] (toLowerCase (trim phrase))))
             = passesPostFilter phrase"
    by (rule ext) (rule keepsResult_tokens)
  show ?thesis
    using assms
    by (simp add: eventsForResourceType_def Let_def similaritySearch_trim_events k
        flaggedFallback_def prefix_joinStrings related_not_fallback)
qed

lemma fold_addToken_one: "fold (addToken 1) ts [x] = [x + real (length ts)]"
  by (induction ts arbitrary: x) (simp_all add: addToken_def)

lemma pseudoEmbedVector_one:
  assumes "normalizeTokens t \<noteq> []"
  shows "pseudoEmbedVector t 1 = [1]"
proof -
  let ?n = "real (length (normalizeTokens t))"
  have n: "0 < ?n" using assms by simp
  have "fold (addToken 1) (normalizeTokens t) (replicate 1 0) = [?n]"
    using fold_addToken_one[of "normalizeTokens t" 0] by simp
  moreover have "sumSquares [?n] = ?n * ?n" by (simp add: sumSquares_def)
  moreover have "sqrt (?n * ?n) = ?n" by simp
  ultimately show ?thesis using n by (simp add: pseudoEmbedVector_def Let_def)
qed

lemma normalizeTokens_b_events: "normalizeTokens '' b  events'' = [''b'', ''events'']"
  by code_simp

lemma normalizeTokens_zz_events: "normalizeTokens ''zz events'' = [''zz'', ''events'']"
  by code_simp

lemma phraseTokens_b: "phraseTokens '' b '' = [''b'']"
  by code_simp

lemma phraseTokens_zz: "phraseTokens ''zz'' = [''zz'']"
  by code_simp

lemma search_tiny:
  "similaritySearch tinyState '' b  events'' (Some 15) (Some [''event'']) None = Inr tinySims"
proof -
  have "pseudoEmbed '' b  events'' (Some 1) = [1]"
    by (simp only: pseudoEmbed_def option.case) (rule pseudoEmbedVector_one, simp add: normalizeTokens_b_events)
  then have q: "pseudoEmbed '' b  events'' (Some (Suc 0)) = [1]" by simp
  show ?thesis
    unfolding similaritySearch_def tinyState_def
    by (simp add: q tinyRecords_def Let_def skippedByKind_def skippedByHint_def
        scored_def cosine_def cosineDenominator_def cosineSums_def jsSort_def sortCompare_def
        compareFn_def initialState_def tinySims_def)
qed

lemma search_zero:
  "similaritySearch zeroState ''zz events'' (Some 15) (Some [''event'']) None = Inr zeroSims"
proof -
  have "pseudoEmbed ''zz events'' (Some 1) = [1]"
    by (simp only: pseudoEmbed_def option.case) (rule pseudoEmbedVector_one, simp add: normalizeTokens_zz_events)
  then have q: "pseudoEmbed ''zz events'' (Some (Suc 0)) = [1]" by simp
  show ?thesis
    unfolding similaritySearch_def zeroState_def
    by (simp add: q tinyRecords_def Let_def skippedByKind_def skippedByHint_def
        scored_def cosine_def cosineDenominator_def cosineSums_def jsSort_def sortCompare_def
        compareFn_def initialState_def zeroSims_def)
qed

lemma lower_texts: "toLowerCase ''B Foo'' = ''b foo''" "toLowerCase ''c Foo'' = ''c foo''"
  "toLowerCase ''d Foo'' = ''d foo''" "toLowerCase ''b'' = ''b''" "toLowerCase ''zz'' = ''zz''"
  by code_simp+

lemma filter_tiny: "filter (passesPostFilter '' b '') tinySims = tinyKept"
  by (simp add: passesPostFilter_def phraseTokens_b containsIgnoringCase_def tinySims_def
      tinyKept_def lower_texts sublist_code)

lemma filter_zero: "filter (passesPostFilter ''zz'') zeroSims = []"
  by (simp add: passesPostFilter_def phraseTokens_zz containsIgnoringCase_def zeroSims_def
      lower_texts sublist_code)

theorem eventsForResourceType_post_filter_witness:
  "similaritySearch tinyState '' b  events'' (Some 15) (Some [''event'']) None = Inr tinySims
   \<and> (\<exists>ans. eventsForResourceType tinyState '' b '' None = Inr ans
          \<and> results ans = tinyKept \<and> \<not> flaggedFallback ans)
   \<and> similaritySearch zeroState ''zz events'' (Some 15) (Some [''event'']) None = Inr zeroSims
   \<and> (\<exists>ans. eventsForResourceType zeroState ''zz'' None = Inr ans
          \<and> results ans = zeroSims \<and> flaggedFallback ans)"
proof -
  have a: "similaritySearch tinyState ('' b '' @ '' events'')
      (Some (case None of None \<Rightarrow> 15 | Some k \<Rightarrow> k)) (Some [''event'']) None = Inr tinySims"
    using search_tiny by simp
  have b: "similaritySearch zeroState (''zz'' @ '' events'')
      (Some (case None of None \<Rightarrow> 15 | Some k \<Rightarrow> k)) (Some [''event'']) None = Inr zeroSims"
    using search_zero by simp
  have t2: "tinyKept \<noteq> []" by (simp add: tinyKept_def)
  have d1: "take (min 5 (length zeroSims)) zeroSims = zeroSims"
    by (simp add: zeroSims_def)
  show ?thesis
    using eventsForResourceType_post_filter [OF a] eventsForResourceType_post_filter [OF b]
    by (simp add: filter_tiny filter_zero t2 d1 search_tiny search_zero)
qed

end
